theory Spec2Isabelle
  imports Main "HOL-Library.Sublist"
begin

section \<open>JavaScript values shared by both sources\<close>

text \<open>
  Strings are byte lists (UTF-8). A string is falsy in JavaScript exactly when it is
  empty, and an optional field is falsy when it is absent, so \<open>x || d\<close> on an optional
  string yields \<open>d\<close> in both cases.
\<close>

datatype runtime_error =
    BodyNotJson         \<comment> \<open>\<open>req.json()\<close> / \<open>response.json()\<close> rejects\<close>
  | NetworkFailure      \<comment> \<open>\<open>fetch\<close> rejects\<close>
  | NullDereference     \<comment> \<open>property read or destructuring of \<open>null\<close> / \<open>undefined\<close>\<close>
  | LibraryFailure string  \<comment> \<open>an error raised inside a third-party library\<close>

text \<open>
  Everything that can be thrown in the two sources is an instance of \<open>Error\<close>:
  either \<open>new Error(msg)\<close> written in the source itself, or an error object created by
  the runtime or a library (TypeError, SyntaxError, ...), whose message is chosen by the
  engine and is never one of the application's own codes.
\<close>

datatype js_error =
    Error string
  | RuntimeError runtime_error

definition or_default :: "string option \<Rightarrow> string \<Rightarrow> string" where
  "or_default x d = (case x of None \<Rightarrow> d | Some s \<Rightarrow> if s = [] then d else s)"

definition digit_char :: "nat \<Rightarrow> char" where
  "digit_char d = ''0123456789'' ! d"

text \<open>Decimal rendering of a non-negative integer, as a template literal does.\<close>

fun string_of_nat :: "nat \<Rightarrow> string" where
  "string_of_nat n =
     (if n < 10 then [digit_char n]
      else string_of_nat (n div 10) @ [digit_char (n mod 10)])"

declare string_of_nat.simps [simp del]

section \<open>Approval transaction route\<close>

subsection \<open>Request and response data\<close>

record UntrustedData =
  buttonIndex :: int
  inputText :: "string option"
  walletAddress :: string
  url :: string
  timestamp :: int
  state :: string
  address :: string
  network :: "string option"

record TrustedData =
  messageBytes :: string

text \<open>
  The parsed body. The declared type is \<open>FrameRequest\<close>, but the handler itself tests
  both members for absence, and a JSON body may also be \<open>null\<close>.
\<close>

datatype FrameRequest =
    JsonNull
  | JsonObject (untrustedData: "UntrustedData option") (trustedData: "TrustedData option")

text \<open>\<open>req.json()\<close> either rejects (\<open>None\<close>) or resolves to the parsed body.\<close>

record NextRequest =
  json :: "FrameRequest option"

record Chain =
  chain_id :: nat

record ChainConfig =
  chain :: Chain
  contractAddress :: string
  usdcAddress :: string

text \<open>Arguments handed to the encoder; a property missing on an object reads as undefined.\<close>

datatype js_value = JString string | JBigInt int | JUndefined

text \<open>
  What the route imports and does not define: the constants of \<open>@/lib/constants\<close>, the
  two chain objects of \<open>viem/chains\<close>, and the two \<open>viem\<close> functions. They are
  parameters of the model; \<open>'abi\<close> is the type of the interface description.
\<close>

record 'abi externals =
  optimismSepolia :: Chain
  arbitrumSepolia :: Chain
  contractAddresses_optimismSepolia :: string
  contractAddresses_arbitrumSepolia :: string
  USDC_optimismSepolia :: string
  USDC_arbitrumSepolia :: string
  USDCABI :: 'abi
  parseUnits :: "string \<Rightarrow> nat \<Rightarrow> js_error + int"
  encodeFunctionData :: "'abi \<Rightarrow> string \<Rightarrow> js_value list \<Rightarrow> js_error + string"

record 'abi tx_params =
  abi :: 'abi
  to :: string
  data :: string

record 'abi descriptor =
  chainId :: string
  "method" :: string
  params :: "'abi tx_params"

datatype 'abi response_body =
    Descriptor "'abi descriptor"
  | ErrorBody string      \<comment> \<open>the object \<open>{error: ...}\<close>\<close>

record 'abi NextResponse =
  status :: nat
  body :: "'abi response_body"

datatype 'abi log_entry =
    Log_received FrameRequest
  | Log_prepared "'abi descriptor"
  | Log_error js_error

subsection \<open>The chain table\<close>

definition chainConfigs :: "'abi externals \<Rightarrow> (string \<times> ChainConfig) list" where
  "chainConfigs imp =
     [(''optimism-sepolia'',
        \<lparr>chain = optimismSepolia imp,
         contractAddress = contractAddresses_optimismSepolia imp,
         usdcAddress = USDC_optimismSepolia imp\<rparr>),
      (''arbitrum-sepolia'',
        \<lparr>chain = arbitrumSepolia imp,
         contractAddress = contractAddresses_arbitrumSepolia imp,
         usdcAddress = USDC_arbitrumSepolia imp\<rparr>)]"

text \<open>
  \<open>chainConfigs\<close> is an object literal, so \<open>chainConfigs[key]\<close> also finds the members
  of \<open>Object.prototype\<close>. Those are functions (or the prototype object itself): truthy,
  with no \<open>contractAddress\<close>, \<open>usdcAddress\<close> or \<open>chain\<close> member.
\<close>

definition Object_prototype_keys :: "string list" where
  "Object_prototype_keys =
     [''constructor'', ''__defineGetter__'', ''__defineSetter__'', ''hasOwnProperty'',
      ''__lookupGetter__'', ''__lookupSetter__'', ''isPrototypeOf'',
      ''propertyIsEnumerable'', ''toString'', ''valueOf'', ''__proto__'',
      ''toLocaleString'']"

datatype 'a property = Own 'a | Inherited | Undefined

definition lookup_chainConfig :: "'abi externals \<Rightarrow> string \<Rightarrow> ChainConfig property" where
  "lookup_chainConfig imp key =
     (case map_of (chainConfigs imp) key of
        Some c \<Rightarrow> Own c
      | None \<Rightarrow> if key \<in> set Object_prototype_keys then Inherited else Undefined)"

subsection \<open>The handler\<close>

text \<open>
  Lines 60 to 84 of the route: from the untrusted part of the request to the
  descriptor, or to the error that is thrown on the way.
\<close>

definition prepare :: "'abi externals \<Rightarrow> UntrustedData \<Rightarrow> js_error + 'abi descriptor" where
  "prepare imp ud =
     (let chainKey = or_default (network ud) ''optimism-sepolia'' in
      case lookup_chainConfig imp chainKey of
        Undefined \<Rightarrow> Inl (Error (''Unsupported network: '' @ chainKey))
      | Inherited \<Rightarrow>
          (let inputAmount = or_default (inputText ud) ''1'' in
           case parseUnits imp inputAmount 6 of
             Inl e \<Rightarrow> Inl e
           | Inr amt \<Rightarrow>
               (case encodeFunctionData imp (USDCABI imp) ''approve'' [JUndefined, JBigInt amt] of
                  Inl e \<Rightarrow> Inl e
                | Inr calldata \<Rightarrow> Inl (RuntimeError NullDereference)))
      | Own chainConfig \<Rightarrow>
          (let inputAmount = or_default (inputText ud) ''1'' in
           case parseUnits imp inputAmount 6 of
             Inl e \<Rightarrow> Inl e
           | Inr amt \<Rightarrow>
               (case encodeFunctionData imp (USDCABI imp) ''approve''
                       [JString (contractAddress chainConfig), JBigInt amt] of
                  Inl e \<Rightarrow> Inl e
                | Inr calldata \<Rightarrow>
                    Inr \<lparr>chainId = ''eip155:'' @ string_of_nat (chain_id (chain chainConfig)),
                         method = ''eth_sendTransaction'',
                         params = \<lparr>abi = USDCABI imp,
                                   to = usdcAddress chainConfig,
                                   data = calldata\<rparr>\<rparr>)))"

text \<open>The body of the \<open>try\<close> block: the log lines written so far and the outcome.\<close>

definition POST_try ::
  "'abi externals \<Rightarrow> NextRequest \<Rightarrow> 'abi log_entry list \<times> (js_error + 'abi descriptor)" where
  "POST_try imp req =
     (case json req of
        None \<Rightarrow> ([], Inl (RuntimeError BodyNotJson))
      | Some j \<Rightarrow>
          (case j of
             JsonNull \<Rightarrow> ([Log_received j], Inl (RuntimeError NullDereference))
           | JsonObject None _ \<Rightarrow>
               ([Log_received j], Inl (Error ''Missing untrustedData or trustedData''))
           | JsonObject (Some ud) None \<Rightarrow>
               ([Log_received j], Inl (Error ''Missing untrustedData or trustedData''))
           | JsonObject (Some ud) (Some td) \<Rightarrow>
               (case prepare imp ud of
                  Inl e \<Rightarrow> ([Log_received j], Inl e)
                | Inr response \<Rightarrow> ([Log_received j, Log_prepared response], Inr response))))"

abbreviation generic_error_response :: "'abi NextResponse" where
  "generic_error_response \<equiv>
     \<lparr>status = 400, body = ErrorBody ''Failed to process frame request''\<rparr>"

definition POST :: "'abi externals \<Rightarrow> NextRequest \<Rightarrow> 'abi log_entry list \<times> 'abi NextResponse" where
  "POST imp req =
     (case POST_try imp req of
        (logs, Inr response) \<Rightarrow> (logs, \<lparr>status = 200, body = Descriptor response\<rparr>)
      | (logs, Inl e) \<Rightarrow>
          (logs @ [Log_error e], generic_error_response))"

section \<open>Registration form\<close>

subsection \<open>String operations of the skills field\<close>

text \<open>\<open>s.split(',')\<close>: the segments between the separators, empty ones included.\<close>

fun split_on :: "char \<Rightarrow> string \<Rightarrow> string list" where
  "split_on c [] = [[]]"
| "split_on c (x # xs) =
     (if x = c then [] # split_on c xs
      else (case split_on c xs of
              seg # segs \<Rightarrow> (x # seg) # segs
            | [] \<Rightarrow> [[x]]))"

text \<open>
  The code points that \<open>trim\<close> removes (ECMAScript WhiteSpace and LineTerminator), each
  as its UTF-8 byte sequence.
\<close>

definition whitespace :: "string list" where
  "whitespace =
     [[CHR 0x09], [CHR 0x0A], [CHR 0x0B], [CHR 0x0C], [CHR 0x0D], [CHR 0x20],
      [CHR 0xC2, CHR 0xA0],
      [CHR 0xE1, CHR 0x9A, CHR 0x80],
      [CHR 0xE2, CHR 0x80, CHR 0x80], [CHR 0xE2, CHR 0x80, CHR 0x81],
      [CHR 0xE2, CHR 0x80, CHR 0x82], [CHR 0xE2, CHR 0x80, CHR 0x83],
      [CHR 0xE2, CHR 0x80, CHR 0x84], [CHR 0xE2, CHR 0x80, CHR 0x85],
      [CHR 0xE2, CHR 0x80, CHR 0x86], [CHR 0xE2, CHR 0x80, CHR 0x87],
      [CHR 0xE2, CHR 0x80, CHR 0x88], [CHR 0xE2, CHR 0x80, CHR 0x89],
      [CHR 0xE2, CHR 0x80, CHR 0x8A],
      [CHR 0xE2, CHR 0x80, CHR 0xA8], [CHR 0xE2, CHR 0x80, CHR 0xA9],
      [CHR 0xE2, CHR 0x80, CHR 0xAF],
      [CHR 0xE2, CHR 0x81, CHR 0x9F],
      [CHR 0xE3, CHR 0x80, CHR 0x80],
      [CHR 0xEF, CHR 0xBB, CHR 0xBF]]"

definition leading_ws :: "string \<Rightarrow> string option" where
  "leading_ws s = find (\<lambda>w. take (length w) s = w) whitespace"

definition trailing_ws :: "string \<Rightarrow> string option" where
  "trailing_ws s = find (\<lambda>w. length w \<le> length s \<and> drop (length s - length w) s = w) whitespace"

function trimStart :: "string \<Rightarrow> string" where
  "trimStart s = (case leading_ws s of None \<Rightarrow> s | Some w \<Rightarrow> trimStart (drop (length w) s))"
  by pat_completeness auto
termination
proof (relation "measure length")
  show "wf (measure length)" by simp
next
  fix s w :: string
  assume "leading_ws s = Some w"
  then have mem: "w \<in> set whitespace" and pre: "take (length w) s = w"
    by (auto simp: leading_ws_def find_Some_iff)
  from mem have "w \<noteq> []" by (auto simp: whitespace_def)
  with pre have "s \<noteq> []" by auto
  with \<open>w \<noteq> []\<close> show "(drop (length w) s, s) \<in> measure length" by simp
qed

function trimEnd :: "string \<Rightarrow> string" where
  "trimEnd s =
     (case trailing_ws s of None \<Rightarrow> s | Some w \<Rightarrow> trimEnd (take (length s - length w) s))"
  by pat_completeness auto
termination
proof (relation "measure length")
  show "wf (measure length)" by simp
next
  fix s w :: string
  assume "trailing_ws s = Some w"
  then have mem: "w \<in> set whitespace" and le: "length w \<le> length s"
    by (auto simp: trailing_ws_def find_Some_iff)
  from mem have "w \<noteq> []" by (auto simp: whitespace_def)
  with le show "(take (length s - length w) s, s) \<in> measure length" by (cases s) auto
qed

declare trimStart.simps [simp del] trimEnd.simps [simp del]

definition trim :: "string \<Rightarrow> string" where
  "trim s = trimEnd (trimStart s)"

text \<open>\<open>segments.join(c)\<close>, the inverse of splitting.\<close>

fun join_with :: "char \<Rightarrow> string list \<Rightarrow> string" where
  "join_with c [] = []"
| "join_with c [x] = x"
| "join_with c (x # y # ys) = x @ c # join_with c (y # ys)"

subsection \<open>Component state\<close>

record FormData =
  fullName :: string
  email :: string
  skills :: "string list"
  experience :: string
  hourlyRate :: int
  portfolio :: string
  bio :: string

datatype error_kind = REGISTRATION_FAILED | ALREADY_REGISTERED | WALLET_NOT_CONNECTED

text \<open>
  \<open>ErrorType\<close> and the toast both have members \<open>type\<close> and \<open>message\<close>; the fields
  carry the name of their object as a prefix.
\<close>

record ErrorType =
  error_type :: "error_kind option"
  error_message :: string

datatype severity = Success | Failure | Warning   \<comment> \<open>'success' | 'error' | 'warning'\<close>

record Toast =
  toast_show :: bool
  toast_message :: string
  toast_type :: severity

record ui_state =
  formData :: FormData
  error :: ErrorType
  loading :: bool
  toast :: Toast

definition initial_state :: ui_state where
  "initial_state =
     \<lparr>formData = \<lparr>fullName = [], email = [], skills = [], experience = [],
                   hourlyRate = 0, portfolio = [], bio = []\<rparr>,
      error = \<lparr>error_type = None, error_message = []\<rparr>,
      loading = False,
      toast = \<lparr>toast_show = False, toast_message = [], toast_type = Success\<rparr>\<rparr>"

definition handleSkillsChange :: "string \<Rightarrow> ui_state \<Rightarrow> ui_state" where
  "handleSkillsChange target_value s =
     (let skills' = map trim (split_on CHR '','' target_value)
      in s\<lparr>formData := (formData s)\<lparr>skills := skills'\<rparr>\<rparr>)"

subsection \<open>Submitting\<close>

text \<open>
  What the handler does to the outside, in order. The request body is the form data
  together with the wallet address.
\<close>

datatype timer_callback = RouterPush string

datatype effect =
    PreventDefault
  | Fetch string string "(string \<times> string) list" FormData string
  | SetTimeout timer_callback nat

text \<open>
  What the outside answers to the one request: \<open>fetch\<close> rejects, or it resolves to a
  response with its \<open>ok\<close> flag and a body; \<open>response.json()\<close> rejects, or yields
  \<open>null\<close>, or yields a value whose \<open>message\<close> member is the given string (\<open>None\<close>
  when the member is missing or not a string).
\<close>

datatype body_outcome = Body_rejects | Body_null | Body_value "string option"

datatype fetch_outcome = Fetch_rejects | Fetch_response bool body_outcome

definition is_Fetch :: "effect \<Rightarrow> bool" where
  "is_Fetch e = (case e of Fetch _ _ _ _ _ \<Rightarrow> True | _ \<Rightarrow> False)"

text \<open>The \<open>try\<close> block: the state, the effects, and the error thrown, if any.\<close>

definition submit_try ::
  "string \<Rightarrow> fetch_outcome \<Rightarrow> ui_state \<Rightarrow> ui_state \<times> effect list \<times> js_error option" where
  "submit_try addr outcome s =
     (let request = Fetch ''/api/freelancer/register'' ''POST''
                      [(''Content-Type'', ''application/json'')] (formData s) addr;
          succeeded =
            (s\<lparr>toast := \<lparr>toast_show = True,
                  toast_message = ''Registration successful! Redirecting to dashboard...'',
                  toast_type = Success\<rparr>\<rparr>,
             [request, SetTimeout (RouterPush ''/home'') 3000], None)
      in case outcome of
           Fetch_rejects \<Rightarrow> (s, [request], Some (RuntimeError NetworkFailure))
         | Fetch_response ok b \<Rightarrow>
             (case b of
                Body_rejects \<Rightarrow> (s, [request], Some (RuntimeError BodyNotJson))
              | Body_null \<Rightarrow>
                  if \<not> ok then (s, [request], Some (RuntimeError NullDereference))
                  else succeeded
              | Body_value msg \<Rightarrow>
                  if \<not> ok then
                    (if msg = Some ''This wallet is already registered'' then
                       (s\<lparr>toast := \<lparr>toast_show = True,
                            toast_message = ''This wallet is already registered'',
                            toast_type = Warning\<rparr>\<rparr>,
                        [request], Some (Error ''ALREADY_REGISTERED''))
                     else (s, [request], Some (Error ''REGISTRATION_FAILED'')))
                  else succeeded))"

text \<open>
  The \<open>catch\<close> block. Every thrown value is an instance of \<open>Error\<close>; only the handler's
  own \<open>new Error('ALREADY_REGISTERED')\<close> has the message of the first case.
\<close>

definition submit_catch :: "js_error \<Rightarrow> ui_state \<Rightarrow> ui_state" where
  "submit_catch err s =
     (if err = Error ''ALREADY_REGISTERED'' then
        s\<lparr>error := \<lparr>error_type = Some ALREADY_REGISTERED,
             error_message =
               ''This wallet is already registered. Cannot register more than once.''\<rparr>\<rparr>
      else
        s\<lparr>toast := \<lparr>toast_show = True,
                     toast_message = ''Registration failed. Please try again later.'',
                     toast_type = Failure\<rparr>,
          error := \<lparr>error_type = Some REGISTRATION_FAILED,
                     error_message = ''Registration failed. Please try again later.''\<rparr>\<rparr>)"

text \<open>
  The wallet address is absent or a string; \<open>!address\<close> holds when it is absent or
  empty.
\<close>

definition handleSubmit ::
  "string option \<Rightarrow> fetch_outcome \<Rightarrow> ui_state \<Rightarrow> ui_state \<times> effect list" where
  "handleSubmit wallet outcome s0 =
     (let s1 = s0\<lparr>loading := True\<rparr>;
          s2 = s1\<lparr>error := \<lparr>error_type = None, error_message = []\<rparr>\<rparr>;
          not_connected =
            (s2\<lparr>error := \<lparr>error_type = Some WALLET_NOT_CONNECTED,
                           error_message = ''Please connect your wallet first''\<rparr>,
                loading := False\<rparr>,
             [PreventDefault])
      in case wallet of
           None \<Rightarrow> not_connected
         | Some addr \<Rightarrow>
             if addr = [] then not_connected
             else
               (case submit_try addr outcome s2 of
                  (s3, effects, None) \<Rightarrow> (s3\<lparr>loading := False\<rparr>, PreventDefault # effects)
                | (s3, effects, Some err) \<Rightarrow>
                    ((submit_catch err s3)\<lparr>loading := False\<rparr>, PreventDefault # effects)))"

subsection \<open>The error banner\<close>

datatype callback = SetError ErrorType

datatype element =
    Link string string string     \<comment> \<open>href, className, text\<close>
  | Button callback string string \<comment> \<open>onClick, className, text\<close>

record banner =
  banner_className :: string
  banner_message :: string
  banner_action :: "element option"

definition errorStyles :: "error_kind \<Rightarrow> string" where
  "errorStyles k =
     (case k of
        ALREADY_REGISTERED \<Rightarrow> ''bg-yellow-50 text-yellow-800 border-yellow-200''
      | REGISTRATION_FAILED \<Rightarrow> ''bg-red-50 text-red-800 border-red-200''
      | WALLET_NOT_CONNECTED \<Rightarrow> ''bg-orange-50 text-orange-800 border-orange-200'')"

definition errorActions :: "error_kind \<Rightarrow> element option" where
  "errorActions k =
     (case k of
        ALREADY_REGISTERED \<Rightarrow>
          Some (Link ''/login'' ''text-yellow-800 underline hover:text-yellow-900'' ''Go to Login'')
      | REGISTRATION_FAILED \<Rightarrow>
          Some (Button (SetError \<lparr>error_type = None, error_message = []\<rparr>)
                  ''mt-2 text-red-800 underline hover:text-red-900'' ''Try Again'')
      | WALLET_NOT_CONNECTED \<Rightarrow> None)"

definition ErrorMessage :: "ErrorType \<Rightarrow> banner option" where
  "ErrorMessage e =
     (case error_type e of
        None \<Rightarrow> None
      | Some k \<Rightarrow>
          Some \<lparr>banner_className = ''p-4 rounded-lg border mb-6 '' @ errorStyles k,
                banner_message = error_message e,
                banner_action = errorActions k\<rparr>)"

text \<open>Clicking a button runs its handler on the component state.\<close>

definition click :: "callback \<Rightarrow> ui_state \<Rightarrow> ui_state" where
  "click cb s = (case cb of SetError e \<Rightarrow> s\<lparr>error := e\<rparr>)"

section \<open>A concrete instance of the imported names\<close>

text \<open>
  For evaluating the handler on concrete requests, the imported names are instantiated:
  the two chain identifiers are those of \<open>viem/chains\<close>, the four addresses are
  placeholders, the parsing function reads a decimal numeral with at most the given
  number of fraction digits and scales it, and the encoder produces the Solidity ABI
  encoding of \<open>approve(address,uint256)\<close>.
\<close>

definition digit_value :: "char \<Rightarrow> nat option" where
  "digit_value c =
     (case find (\<lambda>(d, k). d = c) (zip ''0123456789'' [0, 1, 2, 3, 4, 5, 6, 7, 8, 9]) of
        None \<Rightarrow> None | Some (d, k) \<Rightarrow> Some k)"

fun nat_of_digits :: "string \<Rightarrow> nat \<Rightarrow> nat option" where
  "nat_of_digits [] acc = Some acc"
| "nat_of_digits (c # cs) acc =
     (case digit_value c of None \<Rightarrow> None | Some d \<Rightarrow> nat_of_digits cs (10 * acc + d))"

definition decimal_parseUnits :: "string \<Rightarrow> nat \<Rightarrow> js_error + int" where
  "decimal_parseUnits v decimals =
     (let negative = (take 1 v = ''-'');
          unsigned = (if negative then drop 1 v else v);
          integer = takeWhile (\<lambda>c. c \<noteq> CHR ''.'') unsigned;
          fraction = drop 1 (dropWhile (\<lambda>c. c \<noteq> CHR ''.'') unsigned)
      in if decimals < length fraction then
           Inl (RuntimeError (LibraryFailure ''too many fraction digits''))
         else
           (case (nat_of_digits integer 0, nat_of_digits fraction 0) of
              (Some i, Some f) \<Rightarrow>
                (let units = int (i * 10 ^ decimals + f * 10 ^ (decimals - length fraction))
                 in Inr (if negative then - units else units))
            | _ \<Rightarrow> Inl (RuntimeError (LibraryFailure ''InvalidDecimalNumberError''))))"

definition hex_char :: "nat \<Rightarrow> char" where
  "hex_char d = ''0123456789abcdef'' ! d"

fun hex_of_nat :: "nat \<Rightarrow> string" where
  "hex_of_nat n =
     (if n < 16 then [hex_char n] else hex_of_nat (n div 16) @ [hex_char (n mod 16)])"

declare hex_of_nat.simps [simp del]

function pad_left :: "nat \<Rightarrow> string \<Rightarrow> string" where
  "pad_left n s = (if length s < n then pad_left n (CHR ''0'' # s) else s)"
  by pat_completeness auto
termination
  by (relation "measure (\<lambda>(n, s). n - length s)") auto

declare pad_left.simps [simp del]

definition lower_hex :: "char \<Rightarrow> char" where
  "lower_hex c =
     (case find (\<lambda>(u, l). u = c) (zip ''ABCDEF'' ''abcdef'') of
        None \<Rightarrow> c | Some (u, l) \<Rightarrow> l)"

definition is_address :: "string \<Rightarrow> bool" where
  "is_address a =
     (length a = 42 \<and> take 2 a = ''0x'' \<and>
      list_all (\<lambda>c. lower_hex c \<in> set ''0123456789abcdef'') (drop 2 a))"

type_synonym sample_abi = "(string \<times> string list) list"

definition abi_encode :: "sample_abi \<Rightarrow> string \<Rightarrow> js_value list \<Rightarrow> js_error + string" where
  "abi_encode items functionName args =
     (if (functionName, [''address'', ''uint256'']) \<notin> set items \<or> functionName \<noteq> ''approve'' then
        Inl (RuntimeError (LibraryFailure ''AbiFunctionNotFoundError''))
      else
        (case args of
           [JString spender, JBigInt amount] \<Rightarrow>
             if \<not> is_address spender then
               Inl (RuntimeError (LibraryFailure ''InvalidAddressError''))
             else if amount < 0 \<or> 2 ^ 256 \<le> amount then
               Inl (RuntimeError (LibraryFailure ''IntegerOutOfRangeError''))
             else
               Inr (''0x095ea7b3'' @ pad_left 64 (map lower_hex (drop 2 spender))
                      @ pad_left 64 (hex_of_nat (nat amount)))
         | _ \<Rightarrow> Inl (RuntimeError (LibraryFailure ''InvalidAddressError''))))"

definition sample_externals :: "sample_abi externals" where
  "sample_externals =
     \<lparr>optimismSepolia = \<lparr>chain_id = 11155420\<rparr>,
      arbitrumSepolia = \<lparr>chain_id = 421614\<rparr>,
      contractAddresses_optimismSepolia = ''0x00000000000000000000000000000000000000a1'',
      contractAddresses_arbitrumSepolia = ''0x00000000000000000000000000000000000000b2'',
      USDC_optimismSepolia = ''0x00000000000000000000000000000000000000c3'',
      USDC_arbitrumSepolia = ''0x00000000000000000000000000000000000000d4'',
      USDCABI = [(''approve'', [''address'', ''uint256'']), (''balanceOf'', [''address''])],
      parseUnits = decimal_parseUnits,
      encodeFunctionData = abi_encode\<rparr>"

definition sample_untrusted :: UntrustedData where
  "sample_untrusted =
     \<lparr>buttonIndex = 1, inputText = Some ''5'', walletAddress = ''0xabc'', url = ''https://frame'',
      timestamp = 0, state = [], address = ''0xabc'', network = Some ''arbitrum-sepolia''\<rparr>"

definition sample_request :: "UntrustedData \<Rightarrow> NextRequest" where
  "sample_request ud = \<lparr>json = Some (JsonObject (Some ud) (Some \<lparr>messageBytes = ''0a''\<rparr>))\<rparr>"

definition sample_untrusted_defaults :: UntrustedData where
  "sample_untrusted_defaults =
     \<lparr>buttonIndex = 2, inputText = None, walletAddress = ''0xdef'', url = ''https://frame/2'',
      timestamp = 1700000000, state = ''s'', address = ''0xdef'', network = None\<rparr>"

definition sample_untrusted_unsupported :: UntrustedData where
  "sample_untrusted_unsupported =
     \<lparr>buttonIndex = 1, inputText = Some ''5'', walletAddress = ''0xabc'', url = ''https://frame'',
      timestamp = 0, state = [], address = ''0xabc'', network = Some ''unsupported-chain''\<rparr>"

definition sample_untrusted_empty :: UntrustedData where
  "sample_untrusted_empty =
     \<lparr>buttonIndex = 3, inputText = Some [], walletAddress = ''0x123'', url = ''https://frame/3'',
      timestamp = 1700000001, state = ''t'', address = ''0x123'', network = Some []\<rparr>"

definition sample_untrusted_other :: UntrustedData where
  "sample_untrusted_other =
     \<lparr>buttonIndex = 7, inputText = Some ''5'', walletAddress = ''0xfff'', url = ''https://other'',
      timestamp = 99, state = ''x'', address = ''0xeee'', network = Some ''arbitrum-sepolia''\<rparr>"

section \<open>Properties of the approval route\<close>

subsection \<open>How the response is determined\<close>

lemma prepare_depends:
  assumes "or_default (network u1) ''optimism-sepolia'' = or_default (network u2) ''optimism-sepolia''"
    and "or_default (inputText u1) ''1'' = or_default (inputText u2) ''1''"
  shows "prepare imp u1 = prepare imp u2"
  unfolding prepare_def Let_def assms by (rule refl)

lemma POST_present:
  assumes "json req = Some (JsonObject (Some ud) (Some td))"
  shows "snd (POST imp req) =
           (case prepare imp ud of
              Inl e \<Rightarrow> generic_error_response
            | Inr d \<Rightarrow> \<lparr>status = 200, body = Descriptor d\<rparr>)"
  using assms by (simp add: POST_def POST_try_def split: sum.splits)

lemma POST_not_present:
  assumes "\<nexists>ud td. json req = Some (JsonObject (Some ud) (Some td))"
  shows "snd (POST imp req) = generic_error_response"
  using assms
  by (auto simp: POST_def POST_try_def split: option.splits FrameRequest.splits)

lemma POST_logs_error:
  assumes "snd (POST imp req) = generic_error_response"
  shows "\<exists>e. fst (POST imp req) \<noteq> [] \<and> last (fst (POST imp req)) = Log_error e"
  using assms
  by (auto simp: POST_def split: prod.splits sum.splits)

lemma prepare_own:
  assumes "map_of (chainConfigs imp) (or_default (network ud) ''optimism-sepolia'') = Some c"
  shows "prepare imp ud =
           (case parseUnits imp (or_default (inputText ud) ''1'') 6 of
              Inl e \<Rightarrow> Inl e
            | Inr amt \<Rightarrow>
                (case encodeFunctionData imp (USDCABI imp) ''approve''
                        [JString (contractAddress c), JBigInt amt] of
                   Inl e \<Rightarrow> Inl e
                 | Inr calldata \<Rightarrow>
                     Inr \<lparr>chainId = ''eip155:'' @ string_of_nat (chain_id (chain c)),
                          method = ''eth_sendTransaction'',
                          params = \<lparr>abi = USDCABI imp, to = usdcAddress c, data = calldata\<rparr>\<rparr>))"
  using assms by (simp add: prepare_def lookup_chainConfig_def Let_def)

lemma prepare_no_config:
  assumes "map_of (chainConfigs imp) (or_default (network ud) ''optimism-sepolia'') = None"
  shows "\<exists>e. prepare imp ud = Inl e"
  using assms by (auto simp: prepare_def lookup_chainConfig_def Let_def split: sum.splits)

lemma prepare_parse_fails:
  assumes "parseUnits imp (or_default (inputText ud) ''1'') 6 = Inl e"
  shows "\<exists>e'. prepare imp ud = Inl e'"
  using assms by (auto simp: prepare_def Let_def split: property.splits)

lemma lookup_inherited_key: "lookup_chainConfig imp ''toString'' = Inherited"
  by (simp add: lookup_chainConfig_def chainConfigs_def Object_prototype_keys_def)

lemma prepare_inherited:
  assumes "lookup_chainConfig imp (or_default (network ud) ''optimism-sepolia'') = Inherited"
  shows "\<exists>e. prepare imp ud = Inl e"
  using assms by (auto simp: prepare_def Let_def split: sum.splits)

lemma map_of_optimism:
  "map_of (chainConfigs imp) ''optimism-sepolia'' =
     Some \<lparr>chain = optimismSepolia imp,
           contractAddress = contractAddresses_optimismSepolia imp,
           usdcAddress = USDC_optimismSepolia imp\<rparr>"
  by (simp add: chainConfigs_def)

lemma map_of_arbitrum:
  "map_of (chainConfigs imp) ''arbitrum-sepolia'' =
     Some \<lparr>chain = arbitrumSepolia imp,
           contractAddress = contractAddresses_arbitrumSepolia imp,
           usdcAddress = USDC_arbitrumSepolia imp\<rparr>"
  by (simp add: chainConfigs_def)

lemma sample_parse_one: "parseUnits sample_externals ''1'' 6 = Inr 1000000"
  by (simp add: sample_externals_def decimal_parseUnits_def digit_value_def)

lemma sample_parse_five: "parseUnits sample_externals ''5'' 6 = Inr 5000000"
  by (simp add: sample_externals_def decimal_parseUnits_def digit_value_def)

lemma sample_encode_optimism_one:
  "encodeFunctionData sample_externals (USDCABI sample_externals) ''approve''
     [JString (contractAddresses_optimismSepolia sample_externals), JBigInt 1000000] =
   Inr ''0x095ea7b300000000000000000000000000000000000000000000000000000000000000a100000000000000000000000000000000000000000000000000000000000f4240''"
  by (simp add: sample_externals_def abi_encode_def is_address_def lower_hex_def
      pad_left.simps hex_of_nat.simps hex_char_def)

lemma sample_encode_arbitrum_five:
  "encodeFunctionData sample_externals (USDCABI sample_externals) ''approve''
     [JString (contractAddresses_arbitrumSepolia sample_externals), JBigInt 5000000] =
   Inr ''0x095ea7b300000000000000000000000000000000000000000000000000000000000000b200000000000000000000000000000000000000000000000000000000004c4b40''"
  by (simp add: sample_externals_def abi_encode_def is_address_def lower_hex_def
      pad_left.simps hex_of_nat.simps hex_char_def)

lemma sample_chain_ids:
  "string_of_nat (chain_id (optimismSepolia sample_externals)) = ''11155420''"
  "string_of_nat (chain_id (arbitrumSepolia sample_externals)) = ''421614''"
  by (simp_all add: sample_externals_def string_of_nat.simps digit_char_def)

lemma json_sample_request:
  "json (sample_request ud) = Some (JsonObject (Some ud) (Some \<lparr>messageBytes = ''0a''\<rparr>))"
  by (simp add: sample_request_def)

lemma POST_response_cases:
  "snd (POST imp req) = generic_error_response \<or>
   (\<exists>d. snd (POST imp req) = \<lparr>status = 200, body = Descriptor d\<rparr>)"
  by (auto simp: POST_def split: prod.splits sum.splits)

lemma POST_success_iff:
  "(snd (POST imp req) \<noteq> generic_error_response) =
   (\<exists>ud td d. json req = Some (JsonObject (Some ud) (Some td)) \<and> prepare imp ud = Inr d \<and>
      snd (POST imp req) = \<lparr>status = 200, body = Descriptor d\<rparr>)"
proof (cases "\<exists>ud td. json req = Some (JsonObject (Some ud) (Some td))")
  case True
  then obtain ud td where j: "json req = Some (JsonObject (Some ud) (Some td))" by blast
  show ?thesis
    using POST_present [OF j, of imp] j by (cases "prepare imp ud") auto
next
  case False
  then show ?thesis using POST_not_present [of req imp] by auto
qed

lemma prepare_success_iff:
  "(prepare imp ud = Inr d) =
   (\<exists>c amt calldata.
      map_of (chainConfigs imp) (or_default (network ud) ''optimism-sepolia'') = Some c \<and>
      parseUnits imp (or_default (inputText ud) ''1'') 6 = Inr amt \<and>
      encodeFunctionData imp (USDCABI imp) ''approve''
        [JString (contractAddress c), JBigInt amt] = Inr calldata \<and>
      d = \<lparr>chainId = ''eip155:'' @ string_of_nat (chain_id (chain c)),
           method = ''eth_sendTransaction'',
           params = \<lparr>abi = USDCABI imp, to = usdcAddress c, data = calldata\<rparr>\<rparr>)"
proof (cases "map_of (chainConfigs imp) (or_default (network ud) ''optimism-sepolia'')")
  case None
  then show ?thesis using prepare_no_config [OF None] by auto
next
  case (Some c)
  show ?thesis
    unfolding prepare_own [OF Some] Some
    by (auto split: sum.splits)
qed

lemma POST_depends:
  assumes "json ra = Some (JsonObject (Some ua) (Some ta))"
    and "json rb = Some (JsonObject (Some ub) (Some tb))"
    and "or_default (network ua) ''optimism-sepolia'' = or_default (network ub) ''optimism-sepolia''"
    and "or_default (inputText ua) ''1'' = or_default (inputText ub) ''1''"
  shows "snd (POST imp ra) = snd (POST imp rb)"
  using POST_present [OF assms(1), of imp] POST_present [OF assms(2), of imp]
    prepare_depends [OF assms(3,4), of imp]
  by simp

lemma POST_depends_update:
  assumes "json req = Some (JsonObject (Some ud) (Some td))"
    and "or_default (network ud) ''optimism-sepolia'' = or_default (network ud') ''optimism-sepolia''"
    and "or_default (inputText ud) ''1'' = or_default (inputText ud') ''1''"
  shows "snd (POST imp req) = snd (POST imp \<lparr>json = Some (JsonObject (Some ud') (Some td))\<rparr>)"
  by (rule POST_depends [OF assms(1) _ assms(2,3)]) simp

lemma default_network_response:
  assumes "json req = Some (JsonObject (Some ud) (Some td))"
    and "or_default (network ud) ''optimism-sepolia'' = ''optimism-sepolia''"
    and "parseUnits imp (or_default (inputText ud) ''1'') 6 = Inr amt"
    and "encodeFunctionData imp (USDCABI imp) ''approve''
           [JString (contractAddresses_optimismSepolia imp), JBigInt amt] = Inr calldata"
  shows "snd (POST imp req) =
           \<lparr>status = 200,
            body = Descriptor
              \<lparr>chainId = ''eip155:'' @ string_of_nat (chain_id (optimismSepolia imp)),
               method = ''eth_sendTransaction'',
               params = \<lparr>abi = USDCABI imp, to = USDC_optimismSepolia imp, data = calldata\<rparr>\<rparr>\<rparr>"
proof -
  have "prepare imp ud =
          Inr \<lparr>chainId = ''eip155:'' @ string_of_nat (chain_id (optimismSepolia imp)),
               method = ''eth_sendTransaction'',
               params = \<lparr>abi = USDCABI imp, to = USDC_optimismSepolia imp, data = calldata\<rparr>\<rparr>"
    using prepare_own [of imp ud, unfolded assms(2), OF map_of_optimism] assms(3,4)
    by simp
  then show ?thesis
    using POST_present [OF assms(1), of imp] by simp
qed

lemma default_amount_response:
  assumes "json req = Some (JsonObject (Some ud) (Some td))"
    and "or_default (inputText ud) ''1'' = ''1''"
    and "map_of (chainConfigs imp) (or_default (network ud) ''optimism-sepolia'') = Some c"
    and "parseUnits imp ''1'' 6 = Inr amt"
    and "encodeFunctionData imp (USDCABI imp) ''approve''
           [JString (contractAddress c), JBigInt amt] = Inr calldata"
  shows "snd (POST imp req) =
           \<lparr>status = 200,
            body = Descriptor
              \<lparr>chainId = ''eip155:'' @ string_of_nat (chain_id (chain c)),
               method = ''eth_sendTransaction'',
               params = \<lparr>abi = USDCABI imp, to = usdcAddress c, data = calldata\<rparr>\<rparr>\<rparr>"
proof -
  have "prepare imp ud =
          Inr \<lparr>chainId = ''eip155:'' @ string_of_nat (chain_id (chain c)),
               method = ''eth_sendTransaction'',
               params = \<lparr>abi = USDCABI imp, to = usdcAddress c, data = calldata\<rparr>\<rparr>"
    using prepare_own [OF assms(3)] assms(2,4,5) by simp
  then show ?thesis
    using POST_present [OF assms(1), of imp] by simp
qed

subsection \<open>The claims\<close>

text \<open>
  C1. A request carrying both parts, with network \<open>arbitrum-sepolia\<close> and input text
  \<open>5\<close>, is answered with status 200 and the descriptor whose chain identifier is
  \<open>eip155:\<close> followed by the arbitrumSepolia chain id, whose method is
  \<open>eth_sendTransaction\<close>, whose target is the arbitrum-sepolia USDC address and whose
  data is the encoding of \<open>approve(arbitrum-sepolia deposit contract, 5000000)\<close>. The
  amount and the encoding come from the imported library: it parses \<open>5\<close> at 6 decimals
  as 5000000 and encodes the call for the configured address.
\<close>

theorem approval_arbitrum_five:
  assumes "json req = Some (JsonObject (Some ud) (Some td))"
    and "network ud = Some ''arbitrum-sepolia''"
    and "inputText ud = Some ''5''"
    and "parseUnits imp ''5'' 6 = Inr 5000000"
    and "encodeFunctionData imp (USDCABI imp) ''approve''
           [JString (contractAddresses_arbitrumSepolia imp), JBigInt 5000000] = Inr calldata"
  shows "snd (POST imp req) =
           \<lparr>status = 200,
            body = Descriptor
              \<lparr>chainId = ''eip155:'' @ string_of_nat (chain_id (arbitrumSepolia imp)),
               method = ''eth_sendTransaction'',
               params = \<lparr>abi = USDCABI imp, to = USDC_arbitrumSepolia imp, data = calldata\<rparr>\<rparr>\<rparr>"
proof -
  have key: "or_default (network ud) ''optimism-sepolia'' = ''arbitrum-sepolia''"
    using assms(2) by (simp add: or_default_def)
  have amount: "or_default (inputText ud) ''1'' = ''5''"
    using assms(3) by (simp add: or_default_def)
  have "prepare imp ud =
          Inr \<lparr>chainId = ''eip155:'' @ string_of_nat (chain_id (arbitrumSepolia imp)),
               method = ''eth_sendTransaction'',
               params = \<lparr>abi = USDCABI imp, to = USDC_arbitrumSepolia imp, data = calldata\<rparr>\<rparr>"
    using prepare_own [of imp ud, unfolded key, OF map_of_arbitrum] assms(4,5)
    by (simp add: amount)
  then show ?thesis
    using POST_present [OF assms(1), of imp] by simp
qed

theorem approval_arbitrum_five_witness:
  "snd (POST sample_externals (sample_request sample_untrusted)) =
     \<lparr>status = 200,
      body = Descriptor
        \<lparr>chainId = ''eip155:421614'',
         method = ''eth_sendTransaction'',
         params = \<lparr>abi = [(''approve'', [''address'', ''uint256'']), (''balanceOf'', [''address''])],
                   to = ''0x00000000000000000000000000000000000000d4'',
                   data = ''0x095ea7b300000000000000000000000000000000000000000000000000000000000000b200000000000000000000000000000000000000000000000000000000004c4b40''\<rparr>\<rparr>\<rparr>"
proof -
  have a: "json (sample_request sample_untrusted) =
             Some (JsonObject (Some sample_untrusted) (Some \<lparr>messageBytes = ''0a''\<rparr>))"
    by (simp add: sample_request_def)
  have b: "network sample_untrusted = Some ''arbitrum-sepolia''"
    by (simp add: sample_untrusted_def)
  have c: "inputText sample_untrusted = Some ''5''"
    by (simp add: sample_untrusted_def)
  have d: "parseUnits sample_externals ''5'' 6 = Inr 5000000"
    by (simp add: sample_externals_def decimal_parseUnits_def digit_value_def)
  have e: "encodeFunctionData sample_externals (USDCABI sample_externals) ''approve''
             [JString (contractAddresses_arbitrumSepolia sample_externals), JBigInt 5000000] =
           Inr ''0x095ea7b300000000000000000000000000000000000000000000000000000000000000b200000000000000000000000000000000000000000000000000000000004c4b40''"
    by (simp add: sample_externals_def abi_encode_def is_address_def lower_hex_def
        pad_left.simps hex_of_nat.simps hex_char_def)
  have f: "string_of_nat 421614 = ''421614''"
    by (simp add: string_of_nat.simps digit_char_def)
  show ?thesis
    using approval_arbitrum_five [OF a b c d e] f by (simp add: sample_externals_def)
qed

text \<open>
  C2. The handler answers with status 400 and the body
  \<open>{error: "Failed to process frame request"}\<close> exactly when the body does not parse,
  or the untrusted or the trusted part is absent (a body of \<open>null\<close> has neither), or
  the chain table has no entry for the resolved network key, or the library rejects the
  resolved amount text, or the encoding fails. The response of every failure is this one
  constant, so the cause is not in it; the cause is the last line of the log. In every
  other case the response is 200 with the transaction descriptor.
\<close>

theorem approval_failure_iff:
  "(snd (POST imp req) = generic_error_response) =
     (json req = None
      \<or> json req = Some JsonNull
      \<or> (\<exists>td. json req = Some (JsonObject None td))
      \<or> (\<exists>ud. json req = Some (JsonObject ud None))
      \<or> (\<exists>ud td. json req = Some (JsonObject (Some ud) (Some td)) \<and>
            (map_of (chainConfigs imp) (or_default (network ud) ''optimism-sepolia'') = None
             \<or> (\<exists>e. parseUnits imp (or_default (inputText ud) ''1'') 6 = Inl e)
             \<or> (\<exists>c amt e.
                   map_of (chainConfigs imp) (or_default (network ud) ''optimism-sepolia'') = Some c \<and>
                   parseUnits imp (or_default (inputText ud) ''1'') 6 = Inr amt \<and>
                   encodeFunctionData imp (USDCABI imp) ''approve''
                     [JString (contractAddress c), JBigInt amt] = Inl e))))
   \<and> (snd (POST imp req) \<noteq> generic_error_response \<longrightarrow>
        (\<exists>ud td c amt calldata.
           json req = Some (JsonObject (Some ud) (Some td)) \<and>
           map_of (chainConfigs imp) (or_default (network ud) ''optimism-sepolia'') = Some c \<and>
           parseUnits imp (or_default (inputText ud) ''1'') 6 = Inr amt \<and>
           encodeFunctionData imp (USDCABI imp) ''approve''
             [JString (contractAddress c), JBigInt amt] = Inr calldata \<and>
           snd (POST imp req) =
             \<lparr>status = 200,
              body = Descriptor
                \<lparr>chainId = ''eip155:'' @ string_of_nat (chain_id (chain c)),
                 method = ''eth_sendTransaction'',
                 params = \<lparr>abi = USDCABI imp, to = usdcAddress c, data = calldata\<rparr>\<rparr>\<rparr>))
   \<and> (snd (POST imp req) = generic_error_response \<longrightarrow>
        (\<exists>e. last (fst (POST imp req)) = Log_error e))"
proof (intro conjI)
  show "snd (POST imp req) \<noteq> generic_error_response \<longrightarrow>
        (\<exists>ud td c amt calldata.
           json req = Some (JsonObject (Some ud) (Some td)) \<and>
           map_of (chainConfigs imp) (or_default (network ud) ''optimism-sepolia'') = Some c \<and>
           parseUnits imp (or_default (inputText ud) ''1'') 6 = Inr amt \<and>
           encodeFunctionData imp (USDCABI imp) ''approve''
             [JString (contractAddress c), JBigInt amt] = Inr calldata \<and>
           snd (POST imp req) =
             \<lparr>status = 200,
              body = Descriptor
                \<lparr>chainId = ''eip155:'' @ string_of_nat (chain_id (chain c)),
                 method = ''eth_sendTransaction'',
                 params = \<lparr>abi = USDCABI imp, to = usdcAddress c, data = calldata\<rparr>\<rparr>\<rparr>)"
  proof
    assume "snd (POST imp req) \<noteq> generic_error_response"
    then obtain ud td d where j: "json req = Some (JsonObject (Some ud) (Some td))"
      and p: "prepare imp ud = Inr d"
      and r: "snd (POST imp req) = \<lparr>status = 200, body = Descriptor d\<rparr>"
      unfolding POST_success_iff by blast
    from p [unfolded prepare_success_iff] j r show "\<exists>ud td c amt calldata.
           json req = Some (JsonObject (Some ud) (Some td)) \<and>
           map_of (chainConfigs imp) (or_default (network ud) ''optimism-sepolia'') = Some c \<and>
           parseUnits imp (or_default (inputText ud) ''1'') 6 = Inr amt \<and>
           encodeFunctionData imp (USDCABI imp) ''approve''
             [JString (contractAddress c), JBigInt amt] = Inr calldata \<and>
           snd (POST imp req) =
             \<lparr>status = 200,
              body = Descriptor
                \<lparr>chainId = ''eip155:'' @ string_of_nat (chain_id (chain c)),
                 method = ''eth_sendTransaction'',
                 params = \<lparr>abi = USDCABI imp, to = usdcAddress c, data = calldata\<rparr>\<rparr>\<rparr>"
      by blast
  qed
next
  show "snd (POST imp req) = generic_error_response \<longrightarrow>
        (\<exists>e. last (fst (POST imp req)) = Log_error e)"
    using POST_logs_error [of imp req] by blast
next
  show "(snd (POST imp req) = generic_error_response) =
     (json req = None
      \<or> json req = Some JsonNull
      \<or> (\<exists>td. json req = Some (JsonObject None td))
      \<or> (\<exists>ud. json req = Some (JsonObject ud None))
      \<or> (\<exists>ud td. json req = Some (JsonObject (Some ud) (Some td)) \<and>
            (map_of (chainConfigs imp) (or_default (network ud) ''optimism-sepolia'') = None
             \<or> (\<exists>e. parseUnits imp (or_default (inputText ud) ''1'') 6 = Inl e)
             \<or> (\<exists>c amt e.
                   map_of (chainConfigs imp) (or_default (network ud) ''optimism-sepolia'') = Some c \<and>
                   parseUnits imp (or_default (inputText ud) ''1'') 6 = Inr amt \<and>
                   encodeFunctionData imp (USDCABI imp) ''approve''
                     [JString (contractAddress c), JBigInt amt] = Inl e))))"
  proof (cases "\<exists>ud td. json req = Some (JsonObject (Some ud) (Some td))")
    case False
    have "json req = None \<or> json req = Some JsonNull
          \<or> (\<exists>td. json req = Some (JsonObject None td))
          \<or> (\<exists>ud. json req = Some (JsonObject ud None))"
    proof (cases "json req")
      case None then show ?thesis by simp
    next
      case (Some j)
      show ?thesis
      proof (cases j)
        case JsonNull with Some show ?thesis by simp
      next
        case (JsonObject u t)
        with Some False show ?thesis by (cases u; cases t) auto
      qed
    qed
    with POST_not_present [OF False, of imp] show ?thesis by blast
  next
    case True
    then obtain ud td where j: "json req = Some (JsonObject (Some ud) (Some td))" by blast
    have fail: "(snd (POST imp req) = generic_error_response) = (\<exists>e. prepare imp ud = Inl e)"
      using POST_present [OF j, of imp] by (cases "prepare imp ud") auto
    have prep: "(\<exists>e. prepare imp ud = Inl e) =
       (map_of (chainConfigs imp) (or_default (network ud) ''optimism-sepolia'') = None
             \<or> (\<exists>e. parseUnits imp (or_default (inputText ud) ''1'') 6 = Inl e)
             \<or> (\<exists>c amt e.
                   map_of (chainConfigs imp) (or_default (network ud) ''optimism-sepolia'') = Some c \<and>
                   parseUnits imp (or_default (inputText ud) ''1'') 6 = Inr amt \<and>
                   encodeFunctionData imp (USDCABI imp) ''approve''
                     [JString (contractAddress c), JBigInt amt] = Inl e))"
    proof (cases "map_of (chainConfigs imp) (or_default (network ud) ''optimism-sepolia'')")
      case None
      then show ?thesis using prepare_no_config [OF None] by simp
    next
      case (Some c)
      show ?thesis
        unfolding prepare_own [OF Some] Some
        by (auto split: sum.splits)
    qed
    show ?thesis unfolding fail prep using j by auto
  qed
qed

theorem approval_failure_iff_witness:
  "snd (POST sample_externals (sample_request sample_untrusted_unsupported)) = generic_error_response
   \<and> (\<exists>e. last (fst (POST sample_externals (sample_request sample_untrusted_unsupported))) = Log_error e)
   \<and> (\<exists>d. snd (POST sample_externals (sample_request sample_untrusted)) =
          \<lparr>status = 200, body = Descriptor d\<rparr>)"
proof -
  let ?bad = "sample_request sample_untrusted_unsupported"
  let ?good = "sample_request sample_untrusted"
  have cause: "map_of (chainConfigs sample_externals)
                 (or_default (network sample_untrusted_unsupported) ''optimism-sepolia'') = None"
    by (simp add: chainConfigs_def or_default_def sample_untrusted_unsupported_def)
  have failed: "snd (POST sample_externals ?bad) = generic_error_response"
    using approval_failure_iff [of sample_externals ?bad] cause json_sample_request by blast
  have logged: "\<exists>e. last (fst (POST sample_externals ?bad)) = Log_error e"
    using approval_failure_iff [of sample_externals ?bad] failed by blast
  have key: "or_default (network sample_untrusted) ''optimism-sepolia'' = ''arbitrum-sepolia''"
    and amount: "or_default (inputText sample_untrusted) ''1'' = ''5''"
    by (simp_all add: or_default_def sample_untrusted_def)
  have "snd (POST sample_externals ?good) \<noteq> generic_error_response"
    unfolding approval_failure_iff [of sample_externals ?good, THEN conjunct1]
    by (simp add: json_sample_request key amount map_of_arbitrum sample_parse_five
        sample_encode_arbitrum_five)
  then have "\<exists>d. snd (POST sample_externals ?good) = \<lparr>status = 200, body = Descriptor d\<rparr>"
    using approval_failure_iff [of sample_externals ?good] by blast
  with failed logged show ?thesis by blast
qed

text \<open>
  C5. With both parts present: when the network is absent the handler uses the
  optimism-sepolia configuration (it answers as for the explicit key, and on success the
  descriptor carries the optimism-sepolia chain id, USDC address and an approval for the
  optimism-sepolia deposit contract); when the input text is absent the amount text is
  \<open>1\<close> (it answers as for the explicit text, and the approved amount is what the
  library makes of \<open>1\<close> at 6 decimals, 1000000 base units).
\<close>

theorem approval_defaults:
  assumes "json req = Some (JsonObject (Some ud) (Some td))"
  shows "(network ud = None \<longrightarrow>
            snd (POST imp req) =
              snd (POST imp \<lparr>json = Some (JsonObject
                     (Some (ud\<lparr>network := Some ''optimism-sepolia''\<rparr>)) (Some td))\<rparr>)
            \<and> (\<forall>amt calldata.
                 parseUnits imp (or_default (inputText ud) ''1'') 6 = Inr amt \<longrightarrow>
                 encodeFunctionData imp (USDCABI imp) ''approve''
                   [JString (contractAddresses_optimismSepolia imp), JBigInt amt] = Inr calldata \<longrightarrow>
                 snd (POST imp req) =
                   \<lparr>status = 200,
                    body = Descriptor
                      \<lparr>chainId = ''eip155:'' @ string_of_nat (chain_id (optimismSepolia imp)),
                       method = ''eth_sendTransaction'',
                       params = \<lparr>abi = USDCABI imp, to = USDC_optimismSepolia imp,
                                 data = calldata\<rparr>\<rparr>\<rparr>))
       \<and> (inputText ud = None \<longrightarrow>
            snd (POST imp req) =
              snd (POST imp \<lparr>json = Some (JsonObject
                     (Some (ud\<lparr>inputText := Some ''1''\<rparr>)) (Some td))\<rparr>)
            \<and> (\<forall>c calldata.
                 map_of (chainConfigs imp) (or_default (network ud) ''optimism-sepolia'') = Some c \<longrightarrow>
                 parseUnits imp ''1'' 6 = Inr 1000000 \<longrightarrow>
                 encodeFunctionData imp (USDCABI imp) ''approve''
                   [JString (contractAddress c), JBigInt 1000000] = Inr calldata \<longrightarrow>
                 snd (POST imp req) =
                   \<lparr>status = 200,
                    body = Descriptor
                      \<lparr>chainId = ''eip155:'' @ string_of_nat (chain_id (chain c)),
                       method = ''eth_sendTransaction'',
                       params = \<lparr>abi = USDCABI imp, to = usdcAddress c,
                                 data = calldata\<rparr>\<rparr>\<rparr>))"
proof (intro conjI impI allI)
  assume n: "network ud = None"
  then have key: "or_default (network ud) ''optimism-sepolia'' = ''optimism-sepolia''"
    by (simp add: or_default_def)
  show "snd (POST imp req) =
          snd (POST imp \<lparr>json = Some (JsonObject
                 (Some (ud\<lparr>network := Some ''optimism-sepolia''\<rparr>)) (Some td))\<rparr>)"
    by (rule POST_depends_update [OF assms]) (simp_all add: n or_default_def)
  fix amt calldata
  assume "parseUnits imp (or_default (inputText ud) ''1'') 6 = Inr amt"
    and "encodeFunctionData imp (USDCABI imp) ''approve''
           [JString (contractAddresses_optimismSepolia imp), JBigInt amt] = Inr calldata"
  then show "snd (POST imp req) =
               \<lparr>status = 200,
                body = Descriptor
                  \<lparr>chainId = ''eip155:'' @ string_of_nat (chain_id (optimismSepolia imp)),
                   method = ''eth_sendTransaction'',
                   params = \<lparr>abi = USDCABI imp, to = USDC_optimismSepolia imp,
                             data = calldata\<rparr>\<rparr>\<rparr>"
    by (rule default_network_response [OF assms key])
next
  assume t: "inputText ud = None"
  then have amount: "or_default (inputText ud) ''1'' = ''1''"
    by (simp add: or_default_def)
  show "snd (POST imp req) =
          snd (POST imp \<lparr>json = Some (JsonObject
                 (Some (ud\<lparr>inputText := Some ''1''\<rparr>)) (Some td))\<rparr>)"
    by (rule POST_depends_update [OF assms]) (simp_all add: t or_default_def)
  fix c calldata
  assume "map_of (chainConfigs imp) (or_default (network ud) ''optimism-sepolia'') = Some c"
    and "parseUnits imp ''1'' 6 = Inr 1000000"
    and "encodeFunctionData imp (USDCABI imp) ''approve''
           [JString (contractAddress c), JBigInt 1000000] = Inr calldata"
  then show "snd (POST imp req) =
               \<lparr>status = 200,
                body = Descriptor
                  \<lparr>chainId = ''eip155:'' @ string_of_nat (chain_id (chain c)),
                   method = ''eth_sendTransaction'',
                   params = \<lparr>abi = USDCABI imp, to = usdcAddress c,
                             data = calldata\<rparr>\<rparr>\<rparr>"
    by (rule default_amount_response [OF assms amount])
qed

theorem approval_defaults_witness:
  "snd (POST sample_externals (sample_request sample_untrusted_defaults)) =
     \<lparr>status = 200,
      body = Descriptor
        \<lparr>chainId = ''eip155:11155420'',
         method = ''eth_sendTransaction'',
         params = \<lparr>abi = [(''approve'', [''address'', ''uint256'']), (''balanceOf'', [''address''])],
                   to = ''0x00000000000000000000000000000000000000c3'',
                   data = ''0x095ea7b300000000000000000000000000000000000000000000000000000000000000a100000000000000000000000000000000000000000000000000000000000f4240''\<rparr>\<rparr>\<rparr>"
proof -
  have n: "network sample_untrusted_defaults = None"
    and t: "inputText sample_untrusted_defaults = None"
    by (simp_all add: sample_untrusted_defaults_def)
  have amount: "or_default (inputText sample_untrusted_defaults) ''1'' = ''1''"
    by (simp add: t or_default_def)
  have "snd (POST sample_externals (sample_request sample_untrusted_defaults)) =
          \<lparr>status = 200,
           body = Descriptor
             \<lparr>chainId = ''eip155:'' @ string_of_nat (chain_id (optimismSepolia sample_externals)),
              method = ''eth_sendTransaction'',
              params = \<lparr>abi = USDCABI sample_externals,
                        to = USDC_optimismSepolia sample_externals,
                        data = ''0x095ea7b300000000000000000000000000000000000000000000000000000000000000a100000000000000000000000000000000000000000000000000000000000f4240''\<rparr>\<rparr>\<rparr>"
  proof (rule approval_defaults [OF json_sample_request, THEN conjunct1, rule_format,
        OF n, THEN conjunct2, rule_format])
    show "parseUnits sample_externals (or_default (inputText sample_untrusted_defaults) ''1'') 6 =
            Inr 1000000"
      by (simp add: amount sample_parse_one)
  qed (rule sample_encode_optimism_one)
  then show ?thesis
    by (simp add: sample_chain_ids) (simp add: sample_externals_def)
qed

text \<open>
  C9. Two requests that both carry the untrusted and the trusted part and agree on the
  network and on the input text get the same response, whatever their other fields are.
\<close>

theorem approval_response_depends_only_on_network_and_inputText:
  assumes "json r1 = Some (JsonObject (Some u1) (Some t1))"
    and "json r2 = Some (JsonObject (Some u2) (Some t2))"
    and "network u1 = network u2"
    and "inputText u1 = inputText u2"
  shows "snd (POST imp r1) = snd (POST imp r2)"
  using POST_depends [OF assms(1,2), of imp] assms(3,4) by simp

theorem approval_response_depends_only_on_network_and_inputText_witness:
  "snd (POST sample_externals (sample_request sample_untrusted)) =
   snd (POST sample_externals
          \<lparr>json = Some (JsonObject (Some sample_untrusted_other) (Some \<lparr>messageBytes = ''ff''\<rparr>))\<rparr>)"
proof -
  have other: "json \<lparr>json = Some (JsonObject (Some sample_untrusted_other)
                                (Some \<lparr>messageBytes = ''ff''\<rparr>))\<rparr> =
               Some (JsonObject (Some sample_untrusted_other) (Some \<lparr>messageBytes = ''ff''\<rparr>))"
    by simp
  have n: "network sample_untrusted = network sample_untrusted_other"
    and t: "inputText sample_untrusted = inputText sample_untrusted_other"
    by (simp_all add: sample_untrusted_def sample_untrusted_other_def)
  show ?thesis
    by (rule approval_response_depends_only_on_network_and_inputText
          [OF json_sample_request other n t])
qed

text \<open>
  C10. With both parts present, an empty string counts as an absent field: the empty
  network resolves to the optimism-sepolia configuration, and the empty input text
  resolves to the amount text \<open>1\<close> (1000000 base units); the handler answers as for
  the absent field and as for the explicit default, and the library is never asked to
  parse the empty string.
\<close>

theorem approval_empty_string_as_absent:
  assumes "json req = Some (JsonObject (Some ud) (Some td))"
  shows "(network ud = Some [] \<longrightarrow>
            snd (POST imp req) =
              snd (POST imp \<lparr>json = Some (JsonObject (Some (ud\<lparr>network := None\<rparr>)) (Some td))\<rparr>)
            \<and> snd (POST imp req) =
              snd (POST imp \<lparr>json = Some (JsonObject
                     (Some (ud\<lparr>network := Some ''optimism-sepolia''\<rparr>)) (Some td))\<rparr>)
            \<and> (\<forall>amt calldata.
                 parseUnits imp (or_default (inputText ud) ''1'') 6 = Inr amt \<longrightarrow>
                 encodeFunctionData imp (USDCABI imp) ''approve''
                   [JString (contractAddresses_optimismSepolia imp), JBigInt amt] = Inr calldata \<longrightarrow>
                 snd (POST imp req) =
                   \<lparr>status = 200,
                    body = Descriptor
                      \<lparr>chainId = ''eip155:'' @ string_of_nat (chain_id (optimismSepolia imp)),
                       method = ''eth_sendTransaction'',
                       params = \<lparr>abi = USDCABI imp, to = USDC_optimismSepolia imp,
                                 data = calldata\<rparr>\<rparr>\<rparr>))
       \<and> (inputText ud = Some [] \<longrightarrow>
            snd (POST imp req) =
              snd (POST imp \<lparr>json = Some (JsonObject (Some (ud\<lparr>inputText := None\<rparr>)) (Some td))\<rparr>)
            \<and> snd (POST imp req) =
              snd (POST imp \<lparr>json = Some (JsonObject
                     (Some (ud\<lparr>inputText := Some ''1''\<rparr>)) (Some td))\<rparr>)
            \<and> (\<forall>c calldata.
                 map_of (chainConfigs imp) (or_default (network ud) ''optimism-sepolia'') = Some c \<longrightarrow>
                 parseUnits imp ''1'' 6 = Inr 1000000 \<longrightarrow>
                 encodeFunctionData imp (USDCABI imp) ''approve''
                   [JString (contractAddress c), JBigInt 1000000] = Inr calldata \<longrightarrow>
                 snd (POST imp req) =
                   \<lparr>status = 200,
                    body = Descriptor
                      \<lparr>chainId = ''eip155:'' @ string_of_nat (chain_id (chain c)),
                       method = ''eth_sendTransaction'',
                       params = \<lparr>abi = USDCABI imp, to = usdcAddress c,
                                 data = calldata\<rparr>\<rparr>\<rparr>))"
proof (intro conjI impI allI)
  assume n: "network ud = Some []"
  then have key: "or_default (network ud) ''optimism-sepolia'' = ''optimism-sepolia''"
    by (simp add: or_default_def)
  show "snd (POST imp req) =
          snd (POST imp \<lparr>json = Some (JsonObject (Some (ud\<lparr>network := None\<rparr>)) (Some td))\<rparr>)"
    by (rule POST_depends_update [OF assms]) (simp_all add: n or_default_def)
  show "snd (POST imp req) =
          snd (POST imp \<lparr>json = Some (JsonObject
                 (Some (ud\<lparr>network := Some ''optimism-sepolia''\<rparr>)) (Some td))\<rparr>)"
    by (rule POST_depends_update [OF assms]) (simp_all add: n or_default_def)
  fix amt calldata
  assume "parseUnits imp (or_default (inputText ud) ''1'') 6 = Inr amt"
    and "encodeFunctionData imp (USDCABI imp) ''approve''
           [JString (contractAddresses_optimismSepolia imp), JBigInt amt] = Inr calldata"
  then show "snd (POST imp req) =
               \<lparr>status = 200,
                body = Descriptor
                  \<lparr>chainId = ''eip155:'' @ string_of_nat (chain_id (optimismSepolia imp)),
                   method = ''eth_sendTransaction'',
                   params = \<lparr>abi = USDCABI imp, to = USDC_optimismSepolia imp,
                             data = calldata\<rparr>\<rparr>\<rparr>"
    by (rule default_network_response [OF assms key])
next
  assume t: "inputText ud = Some []"
  then have amount: "or_default (inputText ud) ''1'' = ''1''"
    by (simp add: or_default_def)
  show "snd (POST imp req) =
          snd (POST imp \<lparr>json = Some (JsonObject (Some (ud\<lparr>inputText := None\<rparr>)) (Some td))\<rparr>)"
    by (rule POST_depends_update [OF assms]) (simp_all add: t or_default_def)
  show "snd (POST imp req) =
          snd (POST imp \<lparr>json = Some (JsonObject
                 (Some (ud\<lparr>inputText := Some ''1''\<rparr>)) (Some td))\<rparr>)"
    by (rule POST_depends_update [OF assms]) (simp_all add: t or_default_def)
  fix c calldata
  assume "map_of (chainConfigs imp) (or_default (network ud) ''optimism-sepolia'') = Some c"
    and "parseUnits imp ''1'' 6 = Inr 1000000"
    and "encodeFunctionData imp (USDCABI imp) ''approve''
           [JString (contractAddress c), JBigInt 1000000] = Inr calldata"
  then show "snd (POST imp req) =
               \<lparr>status = 200,
                body = Descriptor
                  \<lparr>chainId = ''eip155:'' @ string_of_nat (chain_id (chain c)),
                   method = ''eth_sendTransaction'',
                   params = \<lparr>abi = USDCABI imp, to = usdcAddress c,
                             data = calldata\<rparr>\<rparr>\<rparr>"
    by (rule default_amount_response [OF assms amount])
qed

theorem approval_empty_string_as_absent_witness:
  "snd (POST sample_externals (sample_request sample_untrusted_empty)) =
     \<lparr>status = 200,
      body = Descriptor
        \<lparr>chainId = ''eip155:11155420'',
         method = ''eth_sendTransaction'',
         params = \<lparr>abi = [(''approve'', [''address'', ''uint256'']), (''balanceOf'', [''address''])],
                   to = ''0x00000000000000000000000000000000000000c3'',
                   data = ''0x095ea7b300000000000000000000000000000000000000000000000000000000000000a100000000000000000000000000000000000000000000000000000000000f4240''\<rparr>\<rparr>\<rparr>"
proof -
  have n: "network sample_untrusted_empty = Some []"
    and t: "inputText sample_untrusted_empty = Some []"
    by (simp_all add: sample_untrusted_empty_def)
  have key: "or_default (network sample_untrusted_empty) ''optimism-sepolia'' = ''optimism-sepolia''"
    by (simp add: n or_default_def)
  have "snd (POST sample_externals (sample_request sample_untrusted_empty)) =
          \<lparr>status = 200,
           body = Descriptor
             \<lparr>chainId = ''eip155:'' @ string_of_nat (chain_id (optimismSepolia sample_externals)),
              method = ''eth_sendTransaction'',
              params = \<lparr>abi = USDCABI sample_externals,
                        to = USDC_optimismSepolia sample_externals,
                        data = ''0x095ea7b300000000000000000000000000000000000000000000000000000000000000a100000000000000000000000000000000000000000000000000000000000f4240''\<rparr>\<rparr>\<rparr>"
    using approval_empty_string_as_absent [OF json_sample_request, THEN conjunct2, rule_format,
        OF t, THEN conjunct2, THEN conjunct2, rule_format,
        of sample_externals
           "\<lparr>chain = optimismSepolia sample_externals,
             contractAddress = contractAddresses_optimismSepolia sample_externals,
             usdcAddress = USDC_optimismSepolia sample_externals\<rparr>"]
      sample_parse_one sample_encode_optimism_one
    by (simp add: key map_of_optimism)
  then show ?thesis
    by (simp add: sample_chain_ids) (simp add: sample_externals_def)
qed

section \<open>Properties of the registration form\<close>

subsection \<open>Splitting and trimming\<close>

lemma split_on_nonempty: "split_on c s \<noteq> []"
  by (induction s) (auto split: list.splits)

lemma split_on_join: "join_with c (split_on c s) = s"
proof (induction s)
  case Nil
  show ?case by simp
next
  case (Cons x xs)
  obtain seg segs where sp: "split_on c xs = seg # segs"
    using split_on_nonempty [of c xs] by (cases "split_on c xs") auto
  show ?case
  proof (cases "x = c")
    case True
    with Cons sp show ?thesis by simp
  next
    case False
    have "join_with c ((x # seg) # segs) = x # join_with c (seg # segs)"
      by (cases segs) simp_all
    with False Cons sp show ?thesis by simp
  qed
qed

lemma split_on_length: "length (split_on c s) = Suc (count_list s c)"
  by (induction s) (auto split: list.splits simp: split_on_nonempty)

lemma split_on_no_separator: "seg \<in> set (split_on c s) \<Longrightarrow> c \<notin> set seg"
proof (induction s arbitrary: seg)
  case Nil
  then show ?case by simp
next
  case (Cons x xs)
  then show ?case
    by (cases "split_on c xs") (auto split: if_splits)
qed

lemma leading_ws_SomeD:
  assumes "leading_ws s = Some w"
  shows "w \<in> set whitespace" and "s = w @ drop (length w) s"
proof -
  from assms have mem: "w \<in> set whitespace" and pre: "take (length w) s = w"
    by (auto simp: leading_ws_def find_Some_iff)
  show "w \<in> set whitespace" by (rule mem)
  from pre show "s = w @ drop (length w) s"
    by (metis append_take_drop_id)
qed

lemma trailing_ws_SomeD:
  assumes "trailing_ws s = Some w"
  shows "w \<in> set whitespace" and "s = take (length s - length w) s @ w"
proof -
  from assms have mem: "w \<in> set whitespace" and suf: "drop (length s - length w) s = w"
    by (auto simp: trailing_ws_def find_Some_iff)
  show "w \<in> set whitespace" by (rule mem)
  from suf show "s = take (length s - length w) s @ w"
    by (metis append_take_drop_id)
qed

lemma trimStart_removes_whitespace:
  "\<exists>ws. set ws \<subseteq> set whitespace \<and> s = concat ws @ trimStart s"
proof (induction s rule: trimStart.induct)
  case (1 s)
  show ?case
  proof (cases "leading_ws s")
    case None
    then have "trimStart s = s" by (simp add: trimStart.simps)
    then have "set [] \<subseteq> set whitespace \<and> s = concat [] @ trimStart s" by simp
    then show ?thesis by blast
  next
    case (Some w)
    from "1" [OF Some] obtain ws where ws: "set ws \<subseteq> set whitespace"
      and rest: "drop (length w) s = concat ws @ trimStart (drop (length w) s)"
      by blast
    have t: "trimStart s = trimStart (drop (length w) s)"
      using Some by (simp add: trimStart.simps)
    have "s = w @ drop (length w) s" by (rule leading_ws_SomeD(2) [OF Some])
    with rest have "s = concat (w # ws) @ trimStart s"
      unfolding t by simp
    moreover have "set (w # ws) \<subseteq> set whitespace"
      using ws leading_ws_SomeD(1) [OF Some] by simp
    ultimately show ?thesis by blast
  qed
qed

lemma trimStart_no_leading: "leading_ws (trimStart s) = None"
proof (induction s rule: trimStart.induct)
  case (1 s)
  show ?case
  proof (cases "leading_ws s")
    case None
    then show ?thesis by (simp add: trimStart.simps)
  next
    case (Some w)
    with "1" [OF Some] show ?thesis by (simp add: trimStart.simps)
  qed
qed

lemma trimEnd_removes_whitespace:
  "\<exists>ws. set ws \<subseteq> set whitespace \<and> s = trimEnd s @ concat ws"
proof (induction s rule: trimEnd.induct)
  case (1 s)
  show ?case
  proof (cases "trailing_ws s")
    case None
    then have "trimEnd s = s" by (simp add: trimEnd.simps)
    then have "set [] \<subseteq> set whitespace \<and> s = trimEnd s @ concat []" by simp
    then show ?thesis by blast
  next
    case (Some w)
    from "1" [OF Some] obtain ws where ws: "set ws \<subseteq> set whitespace"
      and rest: "take (length s - length w) s =
                   trimEnd (take (length s - length w) s) @ concat ws"
      by blast
    have t: "trimEnd s = trimEnd (take (length s - length w) s)"
      using Some by (simp add: trimEnd.simps)
    have "s = take (length s - length w) s @ w" by (rule trailing_ws_SomeD(2) [OF Some])
    then have "s = (trimEnd s @ concat ws) @ w"
      using rest unfolding t by simp
    then have "s = trimEnd s @ concat (ws @ [w])" by simp
    moreover have "set (ws @ [w]) \<subseteq> set whitespace"
      using ws trailing_ws_SomeD(1) [OF Some] by simp
    ultimately show ?thesis by blast
  qed
qed

lemma trimEnd_no_trailing: "trailing_ws (trimEnd s) = None"
proof (induction s rule: trimEnd.induct)
  case (1 s)
  show ?case
  proof (cases "trailing_ws s")
    case None
    then show ?thesis by (simp add: trimEnd.simps)
  next
    case (Some w)
    with "1" [OF Some] show ?thesis by (simp add: trimEnd.simps)
  qed
qed

lemma leading_ws_take:
  assumes "leading_ws s = None"
  shows "leading_ws (take n s) = None"
proof -
  have "take (length w) (take n s) \<noteq> w" if w: "w \<in> set whitespace" for w
  proof
    assume eq: "take (length w) (take n s) = w"
    then have "length w \<le> n"
      by (metis length_take min.cobounded2 min.absorb_iff2 min.commute min.assoc)
    then have "take (length w) s = w"
      using eq by (simp add: min_def)
    with assms w show False
      by (auto simp: leading_ws_def find_None_iff)
  qed
  then show ?thesis by (auto simp: leading_ws_def find_None_iff)
qed

lemma trimEnd_keeps_no_leading:
  "leading_ws s = None \<Longrightarrow> leading_ws (trimEnd s) = None"
proof (induction s rule: trimEnd.induct)
  case (1 s)
  show ?case
  proof (cases "trailing_ws s")
    case None
    with "1.prems" show ?thesis by (simp add: trimEnd.simps)
  next
    case (Some w)
    have "leading_ws (take (length s - length w) s) = None"
      by (rule leading_ws_take [OF "1.prems"])
    from "1.IH" [OF Some this] Some show ?thesis by (simp add: trimEnd.simps)
  qed
qed

lemma trim_removes_whitespace:
  "\<exists>before after.
     set before \<subseteq> set whitespace \<and> set after \<subseteq> set whitespace \<and>
     s = concat before @ trim s @ concat after"
proof -
  obtain before where b: "set before \<subseteq> set whitespace" "s = concat before @ trimStart s"
    using trimStart_removes_whitespace [of s] by blast
  obtain after where a: "set after \<subseteq> set whitespace"
    "trimStart s = trimEnd (trimStart s) @ concat after"
    using trimEnd_removes_whitespace [of "trimStart s"] by blast
  from b(2) a(2) have "s = concat before @ trim s @ concat after"
    by (simp add: trim_def)
  with b(1) a(1) show ?thesis by blast
qed

lemma trim_no_outer_whitespace:
  "leading_ws (trim s) = None \<and> trailing_ws (trim s) = None"
  by (simp add: trim_def trimEnd_no_trailing trimEnd_keeps_no_leading trimStart_no_leading)

lemmas trim_eval =
  trim_def trimStart.simps trimEnd.simps leading_ws_def trailing_ws_def whitespace_def

lemma trim_examples:
  "trim '' TypeScript'' = ''TypeScript''"
  "trim [CHR 0x20, CHR 0xC2, CHR 0xA0, CHR ''a'', CHR 0x20, CHR ''b'', CHR 0x09,
         CHR 0xE2, CHR 0x80, CHR 0xA8] = ''a b''"
  "trim ''  '' = []"
  by (simp_all add: trim_eval)

text \<open>What trimming leaves: no white-space code point at either end.\<close>

lemma take_is_whole_prefix: "(take (length w) t = w) = prefix w t"
proof
  assume "take (length w) t = w"
  then have "t = w @ drop (length w) t" by (metis append_take_drop_id)
  then show "prefix w t" by (metis prefixI)
next
  assume "prefix w t"
  then obtain zs where "t = w @ zs" by (auto simp: prefix_def)
  then show "take (length w) t = w" by simp
qed

lemma drop_is_whole_suffix:
  "(length w \<le> length t \<and> drop (length t - length w) t = w) = suffix w t"
proof
  assume "length w \<le> length t \<and> drop (length t - length w) t = w"
  then have "t = take (length t - length w) t @ w" by (metis append_take_drop_id)
  then show "suffix w t" by (metis suffixI)
next
  assume "suffix w t"
  then obtain ys where "t = ys @ w" by (auto simp: suffix_def)
  then show "length w \<le> length t \<and> drop (length t - length w) t = w" by simp
qed

lemma leading_ws_None_iff: "(leading_ws t = None) = (\<forall>w \<in> set whitespace. \<not> prefix w t)"
  by (auto simp: leading_ws_def find_None_iff take_is_whole_prefix)

lemma trailing_ws_None_iff: "(trailing_ws t = None) = (\<forall>w \<in> set whitespace. \<not> suffix w t)"
  by (auto simp: trailing_ws_def find_None_iff drop_is_whole_suffix)

lemma trim_characterised:
  "(\<exists>before after.
      set before \<subseteq> set whitespace \<and> set after \<subseteq> set whitespace \<and>
      seg = concat before @ trim seg @ concat after)
   \<and> (\<forall>w \<in> set whitespace. \<not> prefix w (trim seg) \<and> \<not> suffix w (trim seg))"
  using trim_removes_whitespace [of seg] trim_no_outer_whitespace [of seg]
  by (simp add: leading_ws_None_iff trailing_ws_None_iff)

subsection \<open>The outcomes of a submit\<close>

lemma handleSubmit_not_connected:
  assumes "wallet = None \<or> wallet = Some []"
  shows "handleSubmit wallet outcome s =
           (s\<lparr>error := \<lparr>error_type = Some WALLET_NOT_CONNECTED,
                         error_message = ''Please connect your wallet first''\<rparr>,
              loading := False\<rparr>,
            [PreventDefault])"
  using assms by (auto simp: handleSubmit_def)

lemma handleSubmit_connected:
  assumes "wallet = Some addr" and "addr \<noteq> []"
  shows "handleSubmit wallet outcome s =
           (case submit_try addr outcome
                   (s\<lparr>loading := True, error := \<lparr>error_type = None, error_message = []\<rparr>\<rparr>) of
              (s3, effects, None) \<Rightarrow> (s3\<lparr>loading := False\<rparr>, PreventDefault # effects)
            | (s3, effects, Some err) \<Rightarrow>
                ((submit_catch err s3)\<lparr>loading := False\<rparr>, PreventDefault # effects))"
  using assms by (simp add: handleSubmit_def)

lemma outcome_refused_state:
  assumes "wallet = Some addr" and "addr \<noteq> []"
    and "outcome = Fetch_response False (Body_value (Some ''This wallet is already registered''))"
  shows "fst (handleSubmit wallet outcome s) =
           s\<lparr>loading := False,
              error := \<lparr>error_type = Some ALREADY_REGISTERED,
                         error_message =
                           ''This wallet is already registered. Cannot register more than once.''\<rparr>,
              toast := \<lparr>toast_show = True,
                         toast_message = ''This wallet is already registered'',
                         toast_type = Warning\<rparr>\<rparr>"
  unfolding handleSubmit_connected [OF assms(1,2)]
  by (simp add: assms(3) submit_try_def submit_catch_def)

lemma outcome_failed_state:
  assumes "wallet = Some addr" and "addr \<noteq> []"
    and "outcome = Fetch_rejects \<or> (\<exists>ok. outcome = Fetch_response ok Body_rejects) \<or>
      outcome = Fetch_response False Body_null \<or>
      (\<exists>m. outcome = Fetch_response False (Body_value m) \<and>
           m \<noteq> Some ''This wallet is already registered'')"
  shows "fst (handleSubmit wallet outcome s) =
           s\<lparr>loading := False,
              error := \<lparr>error_type = Some REGISTRATION_FAILED,
                         error_message = ''Registration failed. Please try again later.''\<rparr>,
              toast := \<lparr>toast_show = True,
                         toast_message = ''Registration failed. Please try again later.'',
                         toast_type = Failure\<rparr>\<rparr>"
  unfolding handleSubmit_connected [OF assms(1,2)]
  using assms(3) by (auto simp: submit_try_def submit_catch_def)

lemma outcome_succeeded_state:
  assumes "wallet = Some addr" and "addr \<noteq> []"
    and "outcome = Fetch_response True Body_null \<or> (\<exists>m. outcome = Fetch_response True (Body_value m))"
  shows "fst (handleSubmit wallet outcome s) =
           s\<lparr>loading := False,
              error := \<lparr>error_type = None, error_message = []\<rparr>,
              toast := \<lparr>toast_show = True,
                         toast_message = ''Registration successful! Redirecting to dashboard...'',
                         toast_type = Success\<rparr>\<rparr>"
  unfolding handleSubmit_connected [OF assms(1,2)]
  using assms(3) by (auto simp: submit_try_def)

lemma outcome_cases:
  "outcome = Fetch_response False (Body_value (Some ''This wallet is already registered'')) \<or>
   (outcome = Fetch_response True Body_null \<or> (\<exists>m. outcome = Fetch_response True (Body_value m))) \<or>
   (outcome = Fetch_rejects \<or> (\<exists>ok. outcome = Fetch_response ok Body_rejects) \<or>
      outcome = Fetch_response False Body_null \<or>
      (\<exists>m. outcome = Fetch_response False (Body_value m) \<and>
           m \<noteq> Some ''This wallet is already registered''))"
proof (cases outcome)
  case Fetch_rejects
  then show ?thesis by simp
next
  case (Fetch_response ok b)
  then show ?thesis by (cases b; cases ok) auto
qed

subsection \<open>The claims\<close>

text \<open>
  C3, as stated: after every completed run of the submit handler exactly one of the
  error banner, a visible success toast and a visible warning toast is active. This
  fails when the endpoint refuses with \<open>This wallet is already registered\<close>: the
  handler shows the warning toast and then sets the error, so two of the three are
  active.
\<close>

theorem submit_exactly_one_indicator_counterexample:
  "length (filter (\<lambda>active. active)
     [error_type (error (fst (handleSubmit (Some ''0xabc'')
          (Fetch_response False (Body_value (Some ''This wallet is already registered'')))
          initial_state))) \<noteq> None,
      toast_show (toast (fst (handleSubmit (Some ''0xabc'')
          (Fetch_response False (Body_value (Some ''This wallet is already registered'')))
          initial_state))) \<and>
      toast_type (toast (fst (handleSubmit (Some ''0xabc'')
          (Fetch_response False (Body_value (Some ''This wallet is already registered'')))
          initial_state))) = Success,
      toast_show (toast (fst (handleSubmit (Some ''0xabc'')
          (Fetch_response False (Body_value (Some ''This wallet is already registered'')))
          initial_state))) \<and>
      toast_type (toast (fst (handleSubmit (Some ''0xabc'')
          (Fetch_response False (Body_value (Some ''This wallet is already registered'')))
          initial_state))) = Warning]) = 2"
  by (simp add: handleSubmit_def submit_try_def submit_catch_def initial_state_def)

text \<open>
  C3, amended. After every completed run of the submit handler at least one of the error
  banner, a visible success toast and a visible warning toast is active. With a connected
  wallet exactly one of them is active (the error banner or else the success toast),
  except when the endpoint refuses with \<open>This wallet is already registered\<close>: then the
  error banner and the warning toast are both active. Without a connected wallet the
  error banner is active and the toast is left as it was before the run.
\<close>

theorem submit_active_indicators:
  assumes "s' = fst (handleSubmit wallet outcome s)"
    and "banner = (error_type (error s') \<noteq> None)"
    and "success_toast = (toast_show (toast s') \<and> toast_type (toast s') = Success)"
    and "warning_toast = (toast_show (toast s') \<and> toast_type (toast s') = Warning)"
    and "connected = (\<exists>addr. wallet = Some addr \<and> addr \<noteq> [])"
    and "refused =
           (outcome = Fetch_response False (Body_value (Some ''This wallet is already registered'')))"
  shows "(banner \<or> success_toast \<or> warning_toast)
         \<and> (connected \<and> refused \<longrightarrow> banner \<and> warning_toast \<and> \<not> success_toast)
         \<and> (connected \<and> \<not> refused \<longrightarrow>
              (banner \<and> \<not> success_toast \<and> \<not> warning_toast) \<or>
              (\<not> banner \<and> success_toast \<and> \<not> warning_toast))
         \<and> (\<not> connected \<longrightarrow> banner \<and> toast s' = toast s)"
proof (cases connected)
  case False
  then have "wallet = None \<or> wallet = Some []"
    unfolding assms(5) by (cases wallet) auto
  from handleSubmit_not_connected [OF this, of outcome s] False show ?thesis
    unfolding assms(1,2,3,4) by simp
next
  case True
  then obtain addr where w: "wallet = Some addr" "addr \<noteq> []"
    unfolding assms(5) by blast
  from outcome_cases [of outcome] show ?thesis
  proof (elim disjE)
    assume r: "outcome = Fetch_response False (Body_value (Some ''This wallet is already registered''))"
    from outcome_refused_state [OF w r, of s] r True show ?thesis
      unfolding assms(1,2,3,4,6) by simp
  next
    assume ok: "outcome = Fetch_response True Body_null"
    then have "outcome = Fetch_response True Body_null \<or> (\<exists>m. outcome = Fetch_response True (Body_value m))"
      by simp
    from outcome_succeeded_state [OF w this, of s] ok True show ?thesis
      unfolding assms(1,2,3,4,6) by simp
  next
    assume ok: "\<exists>m. outcome = Fetch_response True (Body_value m)"
    then have "outcome = Fetch_response True Body_null \<or> (\<exists>m. outcome = Fetch_response True (Body_value m))"
      by simp
    from outcome_succeeded_state [OF w this, of s] ok True show ?thesis
      unfolding assms(1,2,3,4,6) by auto
  next
    assume f: "outcome = Fetch_rejects"
    from outcome_failed_state [OF w, of outcome s] f True show ?thesis
      unfolding assms(1,2,3,4,6) by simp
  next
    assume f: "\<exists>ok. outcome = Fetch_response ok Body_rejects"
    from outcome_failed_state [OF w, of outcome s] f True show ?thesis
      unfolding assms(1,2,3,4,6) by auto
  next
    assume f: "outcome = Fetch_response False Body_null"
    from outcome_failed_state [OF w, of outcome s] f True show ?thesis
      unfolding assms(1,2,3,4,6) by simp
  next
    assume f: "\<exists>m. outcome = Fetch_response False (Body_value m) \<and>
                 m \<noteq> Some ''This wallet is already registered''"
    from outcome_failed_state [OF w, of outcome s] f True show ?thesis
      unfolding assms(1,2,3,4,6) by auto
  qed
qed

theorem submit_active_indicators_witness:
  "error_type (error (fst (handleSubmit (Some ''0xabc'')
      (Fetch_response False (Body_value (Some ''This wallet is already registered'')))
      initial_state))) \<noteq> None
   \<and> toast_type (toast (fst (handleSubmit (Some ''0xabc'')
      (Fetch_response False (Body_value (Some ''This wallet is already registered'')))
      initial_state))) = Warning
   \<and> error_type (error (fst (handleSubmit (Some ''0xabc'')
      (Fetch_response True (Body_value None)) initial_state))) = None
   \<and> toast_type (toast (fst (handleSubmit (Some ''0xabc'')
      (Fetch_response True (Body_value None)) initial_state))) = Success
   \<and> toast (fst (handleSubmit None Fetch_rejects initial_state)) = toast initial_state"
  using submit_active_indicators [OF refl refl refl refl refl refl, of "Some ''0xabc''"
      "Fetch_response False (Body_value (Some ''This wallet is already registered''))"
      initial_state]
    submit_active_indicators [OF refl refl refl refl refl refl, of "Some ''0xabc''"
      "Fetch_response True (Body_value None)" initial_state]
    submit_active_indicators [OF refl refl refl refl refl refl, of None Fetch_rejects
      initial_state]
  by (simp add: handleSubmit_def submit_try_def initial_state_def)

text \<open>
  C4. When no wallet address is available the handler sets the error to
  \<open>WALLET_NOT_CONNECTED\<close> and returns without issuing the registration request: its
  only effect on the outside is \<open>preventDefault\<close>.
\<close>

theorem submit_without_wallet:
  assumes "wallet = None \<or> wallet = Some []"
  shows "error (fst (handleSubmit wallet outcome s)) =
           \<lparr>error_type = Some WALLET_NOT_CONNECTED,
            error_message = ''Please connect your wallet first''\<rparr>
         \<and> snd (handleSubmit wallet outcome s) = [PreventDefault]
         \<and> \<not> list_ex is_Fetch (snd (handleSubmit wallet outcome s))
         \<and> loading (fst (handleSubmit wallet outcome s)) = False"
  unfolding handleSubmit_not_connected [OF assms]
  by (simp add: is_Fetch_def)

theorem submit_without_wallet_witness:
  "error (fst (handleSubmit None (Fetch_response True (Body_value None)) initial_state)) =
     \<lparr>error_type = Some WALLET_NOT_CONNECTED,
      error_message = ''Please connect your wallet first''\<rparr>
   \<and> snd (handleSubmit None (Fetch_response True (Body_value None)) initial_state) = [PreventDefault]"
  using submit_without_wallet [of None "Fetch_response True (Body_value None)" initial_state]
  by simp

text \<open>
  C6. With a connected wallet, when the endpoint answers non-ok with the message
  \<open>This wallet is already registered\<close>, the handler shows a warning toast and sets the
  error to \<open>ALREADY_REGISTERED\<close>; the banner of that error offers the link to
  \<open>/login\<close> and no button, so there is no "Try Again".
\<close>

theorem submit_already_registered:
  assumes "wallet = Some addr" and "addr \<noteq> []"
    and "outcome = Fetch_response False (Body_value (Some ''This wallet is already registered''))"
    and "s' = fst (handleSubmit wallet outcome s)"
  shows "toast s' = \<lparr>toast_show = True,
                      toast_message = ''This wallet is already registered'',
                      toast_type = Warning\<rparr>
         \<and> error_type (error s') = Some ALREADY_REGISTERED
         \<and> (\<exists>b. ErrorMessage (error s') = Some b \<and>
                 banner_action b =
                   Some (Link ''/login'' ''text-yellow-800 underline hover:text-yellow-900''
                           ''Go to Login''))
         \<and> (\<forall>b onClick className label.
               ErrorMessage (error s') = Some b \<longrightarrow>
               banner_action b \<noteq> Some (Button onClick className label))"
  unfolding assms(4) outcome_refused_state [OF assms(1,2,3)]
  by (auto simp: ErrorMessage_def errorActions_def)

theorem submit_already_registered_witness:
  "toast (fst (handleSubmit (Some ''0xabc'')
                 (Fetch_response False (Body_value (Some ''This wallet is already registered'')))
                 initial_state)) =
     \<lparr>toast_show = True, toast_message = ''This wallet is already registered'',
      toast_type = Warning\<rparr>
   \<and> error_type (error (fst (handleSubmit (Some ''0xabc'')
                 (Fetch_response False (Body_value (Some ''This wallet is already registered'')))
                 initial_state))) = Some ALREADY_REGISTERED"
  using submit_already_registered [of "Some ''0xabc''" "''0xabc''"
      "Fetch_response False (Body_value (Some ''This wallet is already registered''))" _
      initial_state, OF refl _ refl refl]
  by simp

text \<open>
  C7. With a connected wallet, when the endpoint answers non-ok with any other message
  (or none), or the request throws (\<open>fetch\<close> rejects, the body is not JSON, or the
  body of a non-ok answer is \<open>null\<close>), the handler shows an error toast and sets the
  error to \<open>REGISTRATION_FAILED\<close>; the banner offers the button "Try Again", and
  clicking it resets the error to none.
\<close>

theorem submit_registration_failed:
  assumes "wallet = Some addr" and "addr \<noteq> []"
    and "outcome = Fetch_rejects \<or> (\<exists>ok. outcome = Fetch_response ok Body_rejects) \<or>
         outcome = Fetch_response False Body_null \<or>
         (\<exists>m. outcome = Fetch_response False (Body_value m) \<and>
              m \<noteq> Some ''This wallet is already registered'')"
    and "s' = fst (handleSubmit wallet outcome s)"
  shows "toast s' = \<lparr>toast_show = True,
                      toast_message = ''Registration failed. Please try again later.'',
                      toast_type = Failure\<rparr>
         \<and> error_type (error s') = Some REGISTRATION_FAILED
         \<and> (\<exists>b onClick className.
               ErrorMessage (error s') = Some b \<and>
               banner_action b = Some (Button onClick className ''Try Again'') \<and>
               error (click onClick s') = \<lparr>error_type = None, error_message = []\<rparr>)"
  unfolding assms(4) outcome_failed_state [OF assms(1,2,3)]
  by (simp add: ErrorMessage_def errorActions_def click_def)

theorem submit_registration_failed_witness:
  "error_type (error (fst (handleSubmit (Some ''0xabc'')
                 (Fetch_response False (Body_value (Some ''Email already in use'')))
                 initial_state))) = Some REGISTRATION_FAILED
   \<and> error_type (error (fst (handleSubmit (Some ''0xabc'') Fetch_rejects initial_state))) =
       Some REGISTRATION_FAILED"
  using submit_registration_failed [of "Some ''0xabc''" "''0xabc''"
      "Fetch_response False (Body_value (Some ''Email already in use''))" _ initial_state,
      OF refl _ _ refl]
    submit_registration_failed [of "Some ''0xabc''" "''0xabc''" Fetch_rejects _ initial_state,
      OF refl _ _ refl]
  by simp

text \<open>
  C8. The skills list is the raw input split at every comma with each segment trimmed,
  empty segments kept, and nothing else of the component state changes. Splitting: the
  segments joined with commas give back the input, no segment contains a comma, and
  there is one segment more than there are commas. Trimming: each skill is its segment
  with white-space code points removed from both ends only, and no white-space code
  point is left at its start or at its end. In particular
  \<open>React, TypeScript, Node.js\<close> gives the three names and \<open>React,\<close> gives
  \<open>React\<close> and the empty string.
\<close>

theorem skills_split_and_trim:
  "handleSkillsChange target_value s =
     s\<lparr>formData := (formData s)\<lparr>skills := map trim (split_on CHR '','' target_value)\<rparr>\<rparr>
   \<and> (\<exists>segments.
         join_with CHR '','' segments = target_value
         \<and> length segments = Suc (count_list target_value CHR '','')
         \<and> (\<forall>seg \<in> set segments. CHR '','' \<notin> set seg)
         \<and> length (skills (formData (handleSkillsChange target_value s))) = length segments
         \<and> (\<forall>i < length segments.
               (\<exists>before after.
                  set before \<subseteq> set whitespace \<and> set after \<subseteq> set whitespace \<and>
                  segments ! i =
                    concat before @ skills (formData (handleSkillsChange target_value s)) ! i
                      @ concat after)
               \<and> (\<forall>w \<in> set whitespace.
                     \<not> prefix w (skills (formData (handleSkillsChange target_value s)) ! i) \<and>
                     \<not> suffix w (skills (formData (handleSkillsChange target_value s)) ! i))))
   \<and> skills (formData (handleSkillsChange ''React, TypeScript, Node.js'' s)) =
       [''React'', ''TypeScript'', ''Node.js'']
   \<and> skills (formData (handleSkillsChange ''React,'' s)) = [''React'', []]"
proof (intro conjI)
  show "handleSkillsChange target_value s =
          s\<lparr>formData := (formData s)\<lparr>skills := map trim (split_on CHR '','' target_value)\<rparr>\<rparr>"
    by (simp add: handleSkillsChange_def)
  show "skills (formData (handleSkillsChange ''React, TypeScript, Node.js'' s)) =
          [''React'', ''TypeScript'', ''Node.js'']"
    by (simp add: handleSkillsChange_def trim_eval)
  show "skills (formData (handleSkillsChange ''React,'' s)) = [''React'', []]"
    by (simp add: handleSkillsChange_def trim_eval)
  let ?segments = "split_on CHR '','' target_value"
  have sk: "skills (formData (handleSkillsChange target_value s)) = map trim ?segments"
    by (simp add: handleSkillsChange_def)
  have "join_with CHR '','' ?segments = target_value
         \<and> length ?segments = Suc (count_list target_value CHR '','')
         \<and> (\<forall>seg \<in> set ?segments. CHR '','' \<notin> set seg)
         \<and> length (skills (formData (handleSkillsChange target_value s))) = length ?segments
         \<and> (\<forall>i < length ?segments.
               (\<exists>before after.
                  set before \<subseteq> set whitespace \<and> set after \<subseteq> set whitespace \<and>
                  ?segments ! i =
                    concat before @ skills (formData (handleSkillsChange target_value s)) ! i
                      @ concat after)
               \<and> (\<forall>w \<in> set whitespace.
                     \<not> prefix w (skills (formData (handleSkillsChange target_value s)) ! i) \<and>
                     \<not> suffix w (skills (formData (handleSkillsChange target_value s)) ! i)))"
  proof (intro conjI allI impI)
    show "join_with CHR '','' ?segments = target_value"
      by (rule split_on_join)
    show "length ?segments = Suc (count_list target_value CHR '','')"
      by (rule split_on_length)
    show "\<forall>seg \<in> set ?segments. CHR '','' \<notin> set seg"
      using split_on_no_separator by blast
    show "length (skills (formData (handleSkillsChange target_value s))) = length ?segments"
      by (simp add: sk)
  next
    fix i
    assume i: "i < length ?segments"
    then have nth: "skills (formData (handleSkillsChange target_value s)) ! i = trim (?segments ! i)"
      by (simp add: sk)
    show "\<exists>before after.
            set before \<subseteq> set whitespace \<and> set after \<subseteq> set whitespace \<and>
            ?segments ! i =
              concat before @ skills (formData (handleSkillsChange target_value s)) ! i
                @ concat after"
      unfolding nth by (rule trim_characterised [THEN conjunct1])
    show "\<forall>w \<in> set whitespace.
            \<not> prefix w (skills (formData (handleSkillsChange target_value s)) ! i) \<and>
            \<not> suffix w (skills (formData (handleSkillsChange target_value s)) ! i)"
      unfolding nth by (rule trim_characterised [THEN conjunct2])
  qed
  then show "\<exists>segments.
         join_with CHR '','' segments = target_value
         \<and> length segments = Suc (count_list target_value CHR '','')
         \<and> (\<forall>seg \<in> set segments. CHR '','' \<notin> set seg)
         \<and> length (skills (formData (handleSkillsChange target_value s))) = length segments
         \<and> (\<forall>i < length segments.
               (\<exists>before after.
                  set before \<subseteq> set whitespace \<and> set after \<subseteq> set whitespace \<and>
                  segments ! i =
                    concat before @ skills (formData (handleSkillsChange target_value s)) ! i
                      @ concat after)
               \<and> (\<forall>w \<in> set whitespace.
                     \<not> prefix w (skills (formData (handleSkillsChange target_value s)) ! i) \<and>
                     \<not> suffix w (skills (formData (handleSkillsChange target_value s)) ! i)))"
    by (rule exI [of _ "split_on CHR '','' target_value"])
qed

theorem skills_split_and_trim_witness:
  "skills (formData (handleSkillsChange '' React , Node.js  ,'' initial_state)) =
     [''React'', ''Node.js'', []]
   \<and> \<not> prefix '' '' (skills (formData (handleSkillsChange '' React , Node.js  ,'' initial_state)) ! 0)
   \<and> \<not> suffix '' '' (skills (formData (handleSkillsChange '' React , Node.js  ,'' initial_state)) ! 1)"
proof -
  let ?v = "'' React , Node.js  ,''"
  let ?sk = "skills (formData (handleSkillsChange ?v initial_state))"
  note claim = skills_split_and_trim [of ?v initial_state]
  have sk: "?sk = [''React'', ''Node.js'', []]"
    using claim [THEN conjunct1] by (simp add: trim_eval)
  have space: "'' '' \<in> set whitespace"
    by (simp add: whitespace_def)
  have commas: "Suc (count_list ?v CHR '','') = 3"
    by simp
  from claim [THEN conjunct2, THEN conjunct1]
  obtain segments where seg:
    "join_with CHR '','' segments = ?v
     \<and> length segments = Suc (count_list ?v CHR '','')
     \<and> (\<forall>seg \<in> set segments. CHR '','' \<notin> set seg)
     \<and> length ?sk = length segments
     \<and> (\<forall>i < length segments.
           (\<exists>before after.
              set before \<subseteq> set whitespace \<and> set after \<subseteq> set whitespace \<and>
              segments ! i = concat before @ ?sk ! i @ concat after)
           \<and> (\<forall>w \<in> set whitespace. \<not> prefix w (?sk ! i) \<and> \<not> suffix w (?sk ! i)))" ..
  from seg have len: "length segments = Suc (count_list ?v CHR '','')"
    by (rule conjunct2 [THEN conjunct1])
  from seg have each: "\<forall>i < length segments.
           (\<exists>before after.
              set before \<subseteq> set whitespace \<and> set after \<subseteq> set whitespace \<and>
              segments ! i = concat before @ ?sk ! i @ concat after)
           \<and> (\<forall>w \<in> set whitespace. \<not> prefix w (?sk ! i) \<and> \<not> suffix w (?sk ! i))"
    by (rule conjunct2 [THEN conjunct2, THEN conjunct2, THEN conjunct2])
  have three: "length segments = 3"
    unfolding len by (rule commas)
  have "0 < length segments" and "1 < length segments"
    unfolding three by simp_all
  with each have "\<forall>w \<in> set whitespace. \<not> prefix w (?sk ! 0) \<and> \<not> suffix w (?sk ! 0)"
    and "\<forall>w \<in> set whitespace. \<not> prefix w (?sk ! 1) \<and> \<not> suffix w (?sk ! 1)"
    by blast+
  with space have "\<not> prefix '' '' (?sk ! 0)" and "\<not> suffix '' '' (?sk ! 1)"
    by blast+
  with sk show ?thesis by (intro conjI)
qed

end
